theory Spec2Isabelle
  imports Main "HOL-Library.AList"
begin

unbundle bit_operations_syntax

section \<open>Python values and built-ins used by simple\_term\_menu.py\<close>

text \<open>
  Strings are lists of 8-bit characters.  The program only handles text that it decoded as
  ASCII or received from \<open>tput\<close>, so a Python \<open>str\<close> and its byte sequence coincide here.
  Exceptions are values of \<open>exn\<close>; a computation that may raise returns \<open>exn + 'a\<close>.
\<close>

datatype exn =
    InvalidStyleError string
  | NoMenuEntriesError string
  | CalledProcessError int
  | ValueError
  | UnicodeDecodeError
  | AttributeError
  | TypeError
  | KeyError string
  | AssertionError
  | KeyboardInterrupt
  | SystemExit int

text \<open>
  A Python \<open>dict\<close> keeps its keys in insertion order; assigning to an existing key
  replaces the value in place.  This is \<open>AList.update\<close> on an association list, and
  lookup is \<open>map_of\<close>.
\<close>

type_synonym dict = "(string \<times> string) list"

definition dict_update :: "dict \<Rightarrow> dict \<Rightarrow> dict" where
  \<comment> \<open>\<open>d.update(other)\<close>\<close>
  "dict_update d other = fold (\<lambda>(k, v) acc. AList.update k v acc) other d"

definition is_space :: "char \<Rightarrow> bool" where
  \<comment> \<open>the ASCII characters for which \<open>str.isspace\<close> holds, the separators of \<open>str.split()\<close>\<close>
  "is_space c = (let n = (of_char c :: nat) in (9 \<le> n \<and> n \<le> 13) \<or> (28 \<le> n \<and> n \<le> 32))"

fun split_words :: "string \<Rightarrow> string \<Rightarrow> string list" where
  "split_words cur [] = (if cur = [] then [] else [cur])"
| "split_words cur (c # cs) =
     (if is_space c then (if cur = [] then split_words [] cs else cur # split_words [] cs)
      else split_words (cur @ [c]) cs)"

definition str_split :: "string \<Rightarrow> string list" where
  \<comment> \<open>\<open>s.split()\<close>: the maximal runs of non-whitespace characters\<close>
  "str_split s = split_words [] s"

fun split_fields :: "char \<Rightarrow> string \<Rightarrow> string \<Rightarrow> string list" where
  "split_fields sep cur [] = [cur]"
| "split_fields sep cur (c # cs) =
     (if c = sep then cur # split_fields sep [] cs else split_fields sep (cur @ [c]) cs)"

definition str_split_on :: "char \<Rightarrow> string \<Rightarrow> string list" where
  \<comment> \<open>\<open>s.split(sep)\<close> for a one-character separator\<close>
  "str_split_on sep s = split_fields sep [] s"

fun str_join :: "string \<Rightarrow> string list \<Rightarrow> string" where
  "str_join sep [] = []"
| "str_join sep [x] = x"
| "str_join sep (x # y # ys) = x @ sep @ str_join sep (y # ys)"

fun startswith :: "string \<Rightarrow> string \<Rightarrow> bool" where
  "startswith s [] = True"
| "startswith [] (p # ps) = False"
| "startswith (c # cs) (p # ps) = (c = p \<and> startswith cs ps)"

definition lower_char :: "char \<Rightarrow> char" where
  "lower_char c =
     (let n = (of_char c :: nat) in if 65 \<le> n \<and> n \<le> 90 then char_of (n + 32) else c)"

definition str_lower :: "string \<Rightarrow> string" where
  "str_lower s = map lower_char s"

definition str_repeat :: "int \<Rightarrow> string \<Rightarrow> string" where
  \<comment> \<open>\<open>n * s\<close>; a count below one gives the empty string\<close>
  "str_repeat n s = concat (replicate (nat n) s)"

definition is_digit :: "char \<Rightarrow> bool" where
  "is_digit c = (let n = (of_char c :: nat) in 48 \<le> n \<and> n \<le> 57)"

definition digit_val :: "char \<Rightarrow> int" where
  "digit_val c = int (of_char c) - 48"

fun parse_digits :: "int \<Rightarrow> string \<Rightarrow> int option" where
  "parse_digits acc [] = Some acc"
| "parse_digits acc [c] = (if is_digit c then Some (10 * acc + digit_val c) else None)"
| "parse_digits acc (c # d # ds) =
     (if is_digit c then parse_digits (10 * acc + digit_val c) (d # ds)
      else if c = CHR ''_'' \<and> is_digit d then parse_digits (10 * acc + digit_val d) ds
      else None)"

definition is_int_space :: "char \<Rightarrow> bool" where
  \<comment> \<open>what \<open>int()\<close> skips around an ASCII numeral: tab to carriage return, and the blank\<close>
  "is_int_space c = (let n = (of_char c :: nat) in (9 \<le> n \<and> n \<le> 13) \<or> n = 32)"

definition int_strip :: "string \<Rightarrow> string" where
  "int_strip s = rev (dropWhile is_int_space (rev (dropWhile is_int_space s)))"

definition py_int :: "string \<Rightarrow> int option" where
  \<comment> \<open>\<open>int(s)\<close> on ASCII text: surrounding whitespace, an optional sign, decimal digits
      with single underscores between them; \<open>None\<close> stands for \<open>ValueError\<close>\<close>
  "py_int s =
     (case int_strip s of
        [] \<Rightarrow> None
      | c # cs \<Rightarrow>
          (let sign = (if c = CHR ''-'' then - 1 else 1);
               body = (if c = CHR ''-'' \<or> c = CHR ''+'' then cs else c # cs)
           in case body of
                [] \<Rightarrow> None
              | d # ds \<Rightarrow>
                  if is_digit d then map_option (\<lambda>v. sign * v) (parse_digits (digit_val d) ds)
                  else None))"

section \<open>Capability resolver\<close>

definition codename_to_capname :: dict where
  "codename_to_capname =
     [(''bg_black'', ''setab 0''),
      (''bg_blue'', ''setab 4''),
      (''bg_cyan'', ''setab 6''),
      (''bg_gray'', ''setab 7''),
      (''bg_green'', ''setab 2''),
      (''bg_purple'', ''setab 5''),
      (''bg_red'', ''setab 1''),
      (''bg_yellow'', ''setab 3''),
      (''bold'', ''bold''),
      (''colors'', ''colors''),
      (''cursor_down'', ''cud1''),
      (''cursor_invisible'', ''civis''),
      (''cursor_up'', ''cuu1''),
      (''cursor_visible'', ''cnorm''),
      (''delete_line'', ''dl1''),
      (''down'', ''kcud1''),
      (''enter_application_mode'', ''smkx''),
      (''exit_application_mode'', ''rmkx''),
      (''fg_black'', ''setaf 0''),
      (''fg_blue'', ''setaf 4''),
      (''fg_cyan'', ''setaf 6''),
      (''fg_gray'', ''setaf 7''),
      (''fg_green'', ''setaf 2''),
      (''fg_purple'', ''setaf 5''),
      (''fg_red'', ''setaf 1''),
      (''fg_yellow'', ''setaf 3''),
      (''italics'', ''sitm''),
      (''reset_attributes'', ''sgr0''),
      (''standout'', ''smso''),
      (''underline'', ''smul''),
      (''up'', ''kcuu1'')]"

definition name_to_control_character :: dict where
  "name_to_control_character = [(''enter'', [CHR 0x0A]), (''escape'', [CHR 0x1B])]"

definition codenames :: "string list" where
  "codenames = map fst codename_to_capname"

text \<open>
  The external \<open>tput\<close> program is a parameter: given its arguments it yields a return code
  and what it wrote to standard output, as the locale codec decodes it.  (A \<open>tput\<close> whose
  output the codec cannot decode is not among the environments described here.)
\<close>

type_synonym tput = "string list \<Rightarrow> int \<times> string"

fun universal_newlines :: "string \<Rightarrow> string" where
  \<comment> \<open>text mode with \<open>universal_newlines=True\<close>: CR LF and a lone CR are read as LF\<close>
  "universal_newlines [] = []"
| "universal_newlines [c] = [if c = CHR 0x0D then CHR 0x0A else c]"
| "universal_newlines (c # d # ds) =
     (if c = CHR 0x0D \<and> d = CHR 0x0A then CHR 0x0A # universal_newlines ds
      else if c = CHR 0x0D then CHR 0x0A # universal_newlines (d # ds)
      else c # universal_newlines (d # ds))"

definition check_output :: "tput \<Rightarrow> string list \<Rightarrow> exn + string" where
  \<comment> \<open>\<open>subprocess.check_output\<close> on \<open>tput\<close> with the given arguments, in text mode: a
      non-zero return code raises \<open>CalledProcessError\<close>\<close>
  "check_output tput args =
     (case tput args of (returncode, out) \<Rightarrow>
        if returncode = 0 then Inr (universal_newlines out)
        else Inl (CalledProcessError returncode))"

definition query_terminfo_database :: "tput \<Rightarrow> string \<Rightarrow> exn + string" where
  "query_terminfo_database tput codename =
     (let capname = (case map_of codename_to_capname codename of
                       Some cap \<Rightarrow> cap
                     | None \<Rightarrow> codename)
      in case check_output tput (str_split capname) of
           Inr out \<Rightarrow> Inr out
         | Inl (CalledProcessError returncode) \<Rightarrow>
             if returncode = 1 then Inr [] else Inl (CalledProcessError returncode)
         | Inl e \<Rightarrow> Inl e)"

definition is_color_codename :: "string \<Rightarrow> bool" where
  "is_color_codename codename = (startswith codename ''bg_'' \<or> startswith codename ''fg_'')"

fun terminal_codes_of :: "tput \<Rightarrow> int \<Rightarrow> string list \<Rightarrow> dict \<Rightarrow> exn + dict" where
  \<comment> \<open>the dict comprehension over \<open>_codenames\<close>, left to right\<close>
  "terminal_codes_of tput supported_colors [] d = Inr d"
| "terminal_codes_of tput supported_colors (codename # rest) d =
     (case (if \<not> is_color_codename codename \<or> supported_colors \<ge> 8
            then query_terminfo_database tput codename
            else Inr [])
      of Inl e \<Rightarrow> Inl e
       | Inr terminal_code \<Rightarrow>
           terminal_codes_of tput supported_colors rest (AList.update codename terminal_code d))"

definition invert_codes :: "dict \<Rightarrow> dict" where
  \<comment> \<open>\<open>{terminal_code: codename for codename, terminal_code in d.items()}\<close>\<close>
  "invert_codes d =
     fold (\<lambda>(codename, terminal_code) acc. AList.update terminal_code codename acc) d []"

section \<open>The terminal, the streams and the class attributes\<close>

record termios_attrs =
  iflag :: int
  oflag :: int
  cflag :: int
  lflag :: int
  ispeed :: int
  ospeed :: int
  cc :: "nat list"

definition ICANON :: int where
  \<comment> \<open>\<open>termios.ICANON\<close> on Linux\<close>
  "ICANON = 2"

definition ECHO :: int where
  \<comment> \<open>\<open>termios.ECHO\<close> on Linux\<close>
  "ECHO = 8"

datatype termios_call = TcGetAttr int | TcSetAttr int termios_attrs

text \<open>
  Everything the program reads or changes outside its local variables: the file
  descriptor of \<open>sys.stdin\<close> (\<open>stdin = None\<close> is Python's \<open>sys.stdin is None\<close>, the case
  of a closed descriptor 0), the attribute configuration of the terminal on it, the list
  of \<open>termios\<close> calls made so far, the text written to the two output streams
  (\<open>stdout = None\<close> is \<open>sys.stdout is None\<close>, the case of a closed descriptor 1), and
  the two class attributes that cache the capability maps.
\<close>

record state =
  stdin :: "int option"
  tty_attrs :: termios_attrs
  termios_calls :: "termios_call list"
  stdout :: "string option"
  stderr :: string
  codename_to_terminal_code :: "dict option"
  terminal_code_to_codename :: "dict option"

type_synonym 'a io = "state \<Rightarrow> (exn + 'a) \<times> state"

definition return_io :: "'a \<Rightarrow> 'a io" where
  "return_io x w = (Inr x, w)"

definition bind_io :: "'a io \<Rightarrow> ('a \<Rightarrow> 'b io) \<Rightarrow> 'b io" where
  "bind_io m f w = (case m w of (Inl e, w') \<Rightarrow> (Inl e, w') | (Inr x, w') \<Rightarrow> f x w')"

fun sequence_io :: "unit io list \<Rightarrow> unit io" where
  \<comment> \<open>a block of statements\<close>
  "sequence_io [] = return_io ()"
| "sequence_io (m # ms) = bind_io m (\<lambda>_. sequence_io ms)"

fun for_each :: "'a list \<Rightarrow> ('a \<Rightarrow> unit io) \<Rightarrow> unit io" where
  \<comment> \<open>\<open>for x in xs: body(x)\<close>\<close>
  "for_each [] body = return_io ()"
| "for_each (x # xs) body = bind_io (body x) (\<lambda>_. for_each xs body)"

definition stdout_write :: "string \<Rightarrow> unit io" where
  \<comment> \<open>\<open>sys.stdout.write(s)\<close>\<close>
  "stdout_write s w =
     (case stdout w of
        None \<Rightarrow> (Inl AttributeError, w)
      | Some out \<Rightarrow> (Inr (), w\<lparr>stdout := Some (out @ s)\<rparr>))"

definition stdout_flush :: "unit io" where
  \<comment> \<open>\<open>sys.stdout.flush()\<close>\<close>
  "stdout_flush w = (case stdout w of None \<Rightarrow> (Inl AttributeError, w) | Some out \<Rightarrow> (Inr (), w))"

definition print_stdout :: "string \<Rightarrow> unit io" where
  \<comment> \<open>\<open>print(s)\<close>, which does nothing when \<open>sys.stdout\<close> is \<open>None\<close>\<close>
  "print_stdout s w =
     (case stdout w of
        None \<Rightarrow> (Inr (), w)
      | Some out \<Rightarrow> (Inr (), w\<lparr>stdout := Some (out @ s @ [CHR 0x0A])\<rparr>))"

definition print_stderr :: "string \<Rightarrow> unit io" where
  \<comment> \<open>\<open>print(s, file=sys.stderr)\<close>\<close>
  "print_stderr s w = (Inr (), w\<lparr>stderr := stderr w @ s @ [CHR 0x0A]\<rparr>)"

definition tcgetattr :: "int \<Rightarrow> termios_attrs io" where
  "tcgetattr fd w = (Inr (tty_attrs w), w\<lparr>termios_calls := termios_calls w @ [TcGetAttr fd]\<rparr>)"

definition tcsetattr :: "int \<Rightarrow> termios_attrs \<Rightarrow> unit io" where
  "tcsetattr fd attrs w =
     (Inr (),
      w\<lparr>tty_attrs := attrs, termios_calls := termios_calls w @ [TcSetAttr fd attrs]\<rparr>)"

definition terminal_code :: "string \<Rightarrow> string io" where
  \<comment> \<open>\<open>self._codename_to_terminal_code[codename]\<close>\<close>
  "terminal_code codename w =
     (case codename_to_terminal_code w of
        None \<Rightarrow> (Inl TypeError, w)
      | Some d \<Rightarrow>
          (case map_of d codename of
             None \<Rightarrow> (Inl (KeyError codename), w)
           | Some code \<Rightarrow> (Inr code, w)))"

definition write_code :: "string \<Rightarrow> unit io" where
  \<comment> \<open>\<open>sys.stdout.write(self._codename_to_terminal_code[codename])\<close>\<close>
  "write_code codename = bind_io (terminal_code codename) stdout_write"

definition init_terminal_codes :: "tput \<Rightarrow> unit io" where
  "init_terminal_codes tput w =
     (if codename_to_terminal_code w \<noteq> None then (Inr (), w)
      else
        case query_terminfo_database tput ''colors'' of
          Inl e \<Rightarrow> (Inl e, w)
        | Inr colors \<Rightarrow>
            (case py_int colors of
               None \<Rightarrow> (Inl ValueError, w)
             | Some supported_colors \<Rightarrow>
                 (case terminal_codes_of tput supported_colors codenames [] of
                    Inl e \<Rightarrow> (Inl e, w)
                  | Inr d \<Rightarrow>
                      (let d' = dict_update d name_to_control_character
                       in (Inr (),
                           w\<lparr>codename_to_terminal_code := Some d',
                             terminal_code_to_codename := Some (invert_codes d')\<rparr>)))))"

section \<open>The menu object\<close>

record terminal_menu =
  fd :: int
  menu_entries :: "string list"
  title :: "string option"
  menu_cursor :: string
  menu_cursor_style :: "string list"
  menu_highlight_style :: "string list"
  cycle_cursor :: bool
  old_term :: "termios_attrs option"
  new_term :: "termios_attrs option"

definition invalid_styles_of :: "terminal_menu \<Rightarrow> string list" where
  "invalid_styles_of self =
     filter (\<lambda>style. map_of codename_to_capname style = None)
       (menu_cursor_style self @ menu_highlight_style self)"

definition check_for_valid_styles :: "terminal_menu \<Rightarrow> exn + unit" where
  "check_for_valid_styles self =
     (let invalid_styles = invalid_styles_of self
      in if invalid_styles \<noteq> [] then
           (if length invalid_styles = 1 then
              Inl (InvalidStyleError
                (''The style '' @ [CHR 0x22] @ hd invalid_styles @ [CHR 0x22] @ '' does not exist.''))
            else
              Inl (InvalidStyleError
                (''The styles ('' @ [CHR 0x22]
                  @ str_join ([CHR 0x22] @ '', '' @ [CHR 0x22]) invalid_styles
                  @ [CHR 0x22] @ '') do not exist.'')))
         else Inr ())"

definition TerminalMenu ::
  "tput \<Rightarrow> string list \<Rightarrow> string option \<Rightarrow> string option \<Rightarrow> string list option \<Rightarrow>
     string list option \<Rightarrow> bool \<Rightarrow> terminal_menu io" where
  \<comment> \<open>\<open>TerminalMenu.__init__\<close>; its first statement, \<open>self._fd = sys.stdin.fileno()\<close>,
      raises \<open>AttributeError\<close> when \<open>sys.stdin\<close> is \<open>None\<close>\<close>
  "TerminalMenu tput entries ttl cursor cursor_style highlight_style cycle w =
     (case stdin w of
        None \<Rightarrow> (Inl AttributeError, w)
      | Some fileno \<Rightarrow>
          (let self = \<lparr>fd = fileno,
                       menu_entries = entries,
                       title = ttl,
                       menu_cursor = (case cursor of Some c \<Rightarrow> c | None \<Rightarrow> []),
                       menu_cursor_style = (case cursor_style of Some s \<Rightarrow> s | None \<Rightarrow> []),
                       menu_highlight_style =
                         (case highlight_style of Some s \<Rightarrow> s | None \<Rightarrow> []),
                       cycle_cursor = cycle,
                       old_term = None,
                       new_term = None\<rparr>
           in case check_for_valid_styles self of
                Inl e \<Rightarrow> (Inl e, w)
              | Inr _ \<Rightarrow>
                  (case init_terminal_codes tput w of
                     (Inl e, w') \<Rightarrow> (Inl e, w')
                   | (Inr _, w') \<Rightarrow> (Inr self, w'))))"

section \<open>Terminal mode controller\<close>

definition init_term :: "terminal_menu \<Rightarrow> state \<Rightarrow> (exn + unit) \<times> terminal_menu \<times> state" where
  "init_term self w =
     (if codename_to_terminal_code w = None then (Inl AssertionError, self, w)
      else
        case tcgetattr (fd self) w of
          (Inl e, w1) \<Rightarrow> (Inl e, self, w1)
        | (Inr old, w1) \<Rightarrow>
            (let self1 = self\<lparr>old_term := Some old\<rparr>
             in case tcgetattr (fd self) w1 of
                  (Inl e, w2) \<Rightarrow> (Inl e, self1, w2)
                | (Inr new, w2) \<Rightarrow>
                    (let new' = new\<lparr>lflag := lflag new AND NOT ICANON AND NOT ECHO\<rparr>;
                         self2 = self1\<lparr>new_term := Some new'\<rparr>
                     in case sequence_io
                               [tcsetattr (fd self) new',
                                write_code ''enter_application_mode'',
                                write_code ''cursor_invisible''] w2
                        of (r, w3) \<Rightarrow> (r, self2, w3))))"

definition reset_term :: "terminal_menu \<Rightarrow> unit io" where
  "reset_term self w =
     (if codename_to_terminal_code w = None then (Inl AssertionError, w)
      else
        case old_term self of
          None \<Rightarrow> (Inl AssertionError, w)
        | Some old \<Rightarrow>
            sequence_io
              [tcsetattr (fd self) old,
               write_code ''cursor_visible'',
               write_code ''exit_application_mode''] w)"

section \<open>Key decoder\<close>

text \<open>
  One element of the input script is what one call of \<open>os.read(fd, 80)\<close> delivers: a chunk
  of bytes, or the interrupt signal arriving while the call blocks.
\<close>

datatype input = Chunk string | Interrupt

definition read_next_key :: "bool \<Rightarrow> input \<Rightarrow> state \<Rightarrow> exn + string" where
  "read_next_key ignore_case inp w =
     (case inp of
        Interrupt \<Rightarrow> Inl KeyboardInterrupt
      | Chunk bytes \<Rightarrow>
          if list_ex (\<lambda>b. 128 \<le> (of_char b :: nat)) bytes then Inl UnicodeDecodeError
          else
            (case terminal_code_to_codename w of
               None \<Rightarrow> Inl TypeError
             | Some d \<Rightarrow>
                 (case map_of d bytes of
                    Some codename \<Rightarrow> Inr codename
                  | None \<Rightarrow> if ignore_case then Inr (str_lower bytes) else Inr bytes)))"

section \<open>Menu renderer\<close>

definition print_entry :: "terminal_menu \<Rightarrow> int \<Rightarrow> int \<Rightarrow> string \<Rightarrow> unit io" where
  \<comment> \<open>the body of the loop over \<open>enumerate(self._menu_entries)\<close> in \<open>print_menu\<close>\<close>
  "print_entry self selected_index i menu_entry =
     sequence_io
       [stdout_write (str_repeat (int (length (menu_cursor self))) '' ''),
        (if i = selected_index then for_each (menu_highlight_style self) write_code
         else return_io ()),
        stdout_write menu_entry,
        (if i = selected_index then write_code ''reset_attributes'' else return_io ()),
        (if i < int (length (menu_entries self)) - 1 then stdout_write [CHR 0x0A]
         else return_io ())]"

fun print_entries :: "terminal_menu \<Rightarrow> int \<Rightarrow> int \<Rightarrow> string list \<Rightarrow> unit io" where
  "print_entries self selected_index i [] = return_io ()"
| "print_entries self selected_index i (menu_entry # rest) =
     bind_io (print_entry self selected_index i menu_entry)
       (\<lambda>_. print_entries self selected_index (i + 1) rest)"

definition print_menu :: "terminal_menu \<Rightarrow> int \<Rightarrow> bool \<Rightarrow> unit io" where
  "print_menu self selected_index with_title =
     sequence_io
       [(case title self of
           Some t \<Rightarrow> if with_title then print_stdout t else return_io ()
         | None \<Rightarrow> return_io ()),
        print_entries self selected_index 0 (menu_entries self),
        bind_io (terminal_code ''cursor_up'')
          (\<lambda>cursor_up.
             stdout_write
               ([CHR 0x0D] @ str_repeat (int (length (menu_entries self)) - 1) cursor_up))]"

definition clear_menu :: "terminal_menu \<Rightarrow> unit io" where
  "clear_menu self =
     sequence_io
       [(if title self \<noteq> None then
           bind_io (terminal_code ''cursor_up'')
             (\<lambda>cursor_up.
                bind_io (terminal_code ''delete_line'')
                  (\<lambda>delete_line. stdout_write (cursor_up @ delete_line)))
         else return_io ()),
        bind_io (terminal_code ''delete_line'')
          (\<lambda>delete_line.
             stdout_write (str_repeat (int (length (menu_entries self))) delete_line)),
        stdout_flush]"

definition position_cursor :: "terminal_menu \<Rightarrow> int \<Rightarrow> unit io" where
  "position_cursor self selected_index =
     (let padding = str_repeat (int (length (menu_cursor self))) '' ''
      in sequence_io
           [bind_io (terminal_code ''cursor_down'')
              (\<lambda>cursor_down.
                 stdout_write
                   (str_repeat (int (length (menu_entries self)) - 1)
                      (padding @ [CHR 0x0D] @ cursor_down)
                    @ padding @ [CHR 0x0D])),
            bind_io (terminal_code ''cursor_up'')
              (\<lambda>cursor_up.
                 stdout_write (str_repeat (int (length (menu_entries self)) - 1) cursor_up)),
            bind_io (terminal_code ''cursor_down'')
              (\<lambda>cursor_down. stdout_write (str_repeat selected_index cursor_down)),
            for_each (menu_cursor_style self) write_code,
            stdout_write (menu_cursor self),
            bind_io (terminal_code ''reset_attributes'')
              (\<lambda>reset_attributes. stdout_write (reset_attributes @ [CHR 0x0D])),
            bind_io (terminal_code ''cursor_up'')
              (\<lambda>cursor_up. stdout_write (str_repeat selected_index cursor_up))])"

section \<open>Menu controller\<close>

text \<open>
  One pass through the \<open>if\<close>/\<open>elif\<close> chain of the loop in \<open>show\<close>: either the loop goes
  on with a selection index, or it is left with the value of \<open>selected_index\<close>
  (\<open>None\<close> after Escape).
\<close>

datatype loop_step = Continue int | Break "int option"

definition key_transition :: "terminal_menu \<Rightarrow> int \<Rightarrow> string \<Rightarrow> loop_step" where
  "key_transition self selected_index next_key =
     (if next_key = ''up'' \<or> next_key = ''k'' then
        (let selected_index = selected_index - 1
         in if selected_index < 0 then
              (if cycle_cursor self then Continue (int (length (menu_entries self)) - 1)
               else Continue 0)
            else Continue selected_index)
      else if next_key = ''down'' \<or> next_key = ''j'' then
        (let selected_index = selected_index + 1
         in if selected_index \<ge> int (length (menu_entries self)) then
              (if cycle_cursor self then Continue 0
               else Continue (int (length (menu_entries self)) - 1))
            else Continue selected_index)
      else if next_key = ''enter'' then Break (Some selected_index)
      else if next_key = ''escape'' then Break None
      else Continue selected_index)"

text \<open>
  The \<open>while True\<close> loop, run on a script of inputs.  When the script is used up the
  next read blocks for ever: the loop does not return, which is the value \<open>None\<close>.
  Otherwise the result is how the body of the \<open>try\<close> statement was left: by an exception
  or by \<open>break\<close> with the value of \<open>selected_index\<close>.
\<close>

fun show_loop ::
  "terminal_menu \<Rightarrow> int \<Rightarrow> input list \<Rightarrow> state \<Rightarrow> ((exn + int option) \<times> state) option" where
  "show_loop self selected_index [] w =
     (case position_cursor self selected_index w of
        (Inl e, w1) \<Rightarrow> Some (Inl e, w1)
      | (Inr _, w1) \<Rightarrow> None)"
| "show_loop self selected_index (inp # rest) w =
     (case position_cursor self selected_index w of
        (Inl e, w1) \<Rightarrow> Some (Inl e, w1)
      | (Inr _, w1) \<Rightarrow>
          (case read_next_key True inp w1 of
             Inl e \<Rightarrow> Some (Inl e, w1)
           | Inr next_key \<Rightarrow>
               (case key_transition self selected_index next_key of
                  Break result \<Rightarrow> Some (Inr result, w1)
                | Continue selected_index' \<Rightarrow>
                    (case print_menu self selected_index' False w1 of
                       (Inl e, w2) \<Rightarrow> Some (Inl e, w2)
                     | (Inr _, w2) \<Rightarrow> show_loop self selected_index' rest w2))))"

text \<open>
  The selection index and the state at the head of the loop once the whole script has been
  consumed, when the session is still active then.
\<close>

fun active_after ::
  "terminal_menu \<Rightarrow> int \<Rightarrow> input list \<Rightarrow> state \<Rightarrow> (int \<times> state) option" where
  "active_after self selected_index [] w = Some (selected_index, w)"
| "active_after self selected_index (inp # rest) w =
     (case position_cursor self selected_index w of
        (Inl e, w1) \<Rightarrow> None
      | (Inr _, w1) \<Rightarrow>
          (case read_next_key True inp w1 of
             Inl e \<Rightarrow> None
           | Inr next_key \<Rightarrow>
               (case key_transition self selected_index next_key of
                  Break result \<Rightarrow> None
                | Continue selected_index' \<Rightarrow>
                    (case print_menu self selected_index' False w1 of
                       (Inl e, w2) \<Rightarrow> None
                     | (Inr _, w2) \<Rightarrow> active_after self selected_index' rest w2))))"

text \<open>\<open>TerminalMenu.show\<close> (\<open>show\<close> is a reserved word here).\<close>

definition TerminalMenu_show ::
  "terminal_menu \<Rightarrow> input list \<Rightarrow> state \<Rightarrow> ((exn + int option) \<times> state) option" where
  "TerminalMenu_show self inputs w =
     (if codename_to_terminal_code w = None then Some (Inl AssertionError, w)
      else
        case init_term self w of
          (Inl e, self1, w1) \<Rightarrow> Some (Inl e, w1)
        | (Inr _, self1, w1) \<Rightarrow>
            (case print_menu self1 0 True w1 of
               (Inl e, w2) \<Rightarrow> Some (Inl e, w2)
             | (Inr _, w2) \<Rightarrow>
                 (case show_loop self1 0 inputs w2 of
                    None \<Rightarrow> None
                  | Some (body, w3) \<Rightarrow>
                      (let outcome = (case body of
                                        Inl KeyboardInterrupt \<Rightarrow> Inr None
                                      | _ \<Rightarrow> body)
                       in case sequence_io [clear_menu self1, reset_term self1] w3 of
                            (Inl e, w4) \<Rightarrow> Some (Inl e, w4)
                          | (Inr _, w4) \<Rightarrow> Some (outcome, w4)))))"

section \<open>Command line\<close>

text \<open>
  \<open>argparse\<close> is outside the program: what \<open>parser.parse_args()\<close> does is a parameter,
  either the namespace it returns or the exception it raises (\<open>SystemExit\<close> for a help
  request or a usage error).
\<close>

record namespace =
  ns_title :: "string option"
  ns_cursor :: string
  ns_cursor_style :: string
  ns_highlight_style :: string
  ns_cycle :: bool
  ns_print_version :: bool
  ns_entries :: "string list"

record args =
  args_title :: "string option"
  args_cursor :: string
  args_cursor_style :: "string list option"
  args_highlight_style :: "string list option"
  args_cycle :: bool
  args_print_version :: bool
  args_entries :: "string list"

definition parse_arguments :: "exn + namespace \<Rightarrow> exn + args" where
  "parse_arguments parse_args =
     (case parse_args of
        Inl e \<Rightarrow> Inl e
      | Inr ns \<Rightarrow>
          if \<not> ns_print_version ns \<and> ns_entries ns = [] then
            Inl (NoMenuEntriesError ''No menu entries given!'')
          else
            Inr \<lparr>args_title = ns_title ns,
                 args_cursor = ns_cursor ns,
                 args_cursor_style =
                   (if ns_cursor_style ns \<noteq> [] then Some (str_split_on CHR '','' (ns_cursor_style ns))
                    else None),
                 args_highlight_style =
                   (if ns_highlight_style ns \<noteq> []
                    then Some (str_split_on CHR '','' (ns_highlight_style ns))
                    else None),
                 args_cycle = ns_cycle ns,
                 args_print_version = ns_print_version ns,
                 args_entries = ns_entries ns\<rparr>)"

definition version :: string where
  "version = ''0.4.5''"

text \<open>
  \<open>main\<close> always ends by an exception: \<open>SystemExit n\<close> raised by \<open>sys.exit(n)\<close>, or an
  exception nobody catches.  \<open>prog\<close> is the base name of \<open>sys.argv[0]\<close>.
\<close>

definition main ::
  "tput \<Rightarrow> string \<Rightarrow> exn + namespace \<Rightarrow> input list \<Rightarrow> state \<Rightarrow> (exn \<times> state) option" where
  "main tput prog parse_args inputs w =
     (case parse_arguments parse_args of
        Inl (SystemExit c) \<Rightarrow> Some (SystemExit 0, w)
      | Inl (NoMenuEntriesError msg) \<Rightarrow> Some (SystemExit 0, snd (print_stderr msg w))
      | Inl e \<Rightarrow> Some (e, w)
      | Inr args \<Rightarrow>
          if args_print_version args then
            Some (SystemExit 0, snd (print_stdout (prog @ '', version '' @ version) w))
          else
            (case TerminalMenu tput (args_entries args) (args_title args)
                    (Some (args_cursor args)) (args_cursor_style args)
                    (args_highlight_style args) (args_cycle args) w
             of (Inl (InvalidStyleError msg), w1) \<Rightarrow>
                  Some (SystemExit 0, snd (print_stderr msg w1))
              | (Inl e, w1) \<Rightarrow> Some (e, w1)
              | (Inr terminal_menu, w1) \<Rightarrow>
                  (case TerminalMenu_show terminal_menu inputs w1 of
                     None \<Rightarrow> None
                   | Some (Inl e, w2) \<Rightarrow> Some (e, w2)
                   | Some (Inr chosen_entry, w2) \<Rightarrow>
                       (case chosen_entry of
                          None \<Rightarrow> Some (SystemExit 0, w2)
                        | Some i \<Rightarrow> Some (SystemExit (i + 1), w2)))))"

text \<open>
  The exit status of the process when \<open>main\<close> ends by the given exception.  The
  interpreter passes the argument of \<open>sys.exit\<close> to the operating system, which keeps its
  low 8 bits; an exception nobody catches gives status 1.  How an uncaught
  \<open>KeyboardInterrupt\<close> ends the process depends on the interpreter version and is left
  open (\<open>None\<close>).
\<close>

fun exit_status :: "exn \<Rightarrow> int option" where
  "exit_status (SystemExit n) = Some (n mod 256)"
| "exit_status KeyboardInterrupt = None"
| "exit_status e = Some 1"

section \<open>Observations and concrete environments\<close>

definition cached_code :: "state \<Rightarrow> string \<Rightarrow> string option" where
  \<comment> \<open>the terminal code the forward map holds for a codename\<close>
  "cached_code w codename =
     (case codename_to_terminal_code w of None \<Rightarrow> None | Some d \<Rightarrow> map_of d codename)"

definition cached_codename :: "state \<Rightarrow> string \<Rightarrow> string option" where
  \<comment> \<open>the codename the reverse map holds for a terminal code\<close>
  "cached_codename w code =
     (case terminal_code_to_codename w of None \<Rightarrow> None | Some d \<Rightarrow> map_of d code)"

definition tput_args :: "string \<Rightarrow> string list" where
  \<comment> \<open>the arguments \<open>_query_terminfo_database\<close> passes to \<open>tput\<close> for a codename\<close>
  "tput_args codename =
     str_split (case map_of codename_to_capname codename of
                  Some cap \<Rightarrow> cap
                | None \<Rightarrow> codename)"

definition raw_mode :: "termios_attrs \<Rightarrow> termios_attrs" where
  \<comment> \<open>the configuration \<open>_init_term\<close> applies: canonical mode and echo switched off\<close>
  "raw_mode attrs = attrs\<lparr>lflag := lflag attrs AND NOT ICANON AND NOT ECHO\<rparr>"

text \<open>
  The session started by \<open>show\<close> after it has consumed a whole script and is still
  active: the selection index and the state at the head of the loop.
\<close>

definition active_session ::
  "terminal_menu \<Rightarrow> input list \<Rightarrow> state \<Rightarrow> (int \<times> state) option" where
  "active_session self inputs w =
     (if codename_to_terminal_code w = None then None
      else
        case init_term self w of
          (Inl e, self1, w1) \<Rightarrow> None
        | (Inr _, self1, w1) \<Rightarrow>
            (case print_menu self1 0 True w1 of
               (Inl e, w2) \<Rightarrow> None
             | (Inr _, w2) \<Rightarrow> active_after self1 0 inputs w2))"

text \<open>An xterm-like terminal with eight colours; capabilities not listed are absent.\<close>

definition xterm_tput :: tput where
  "xterm_tput args =
     (if args = [''colors''] then (0, ''8'' @ [CHR 0x0A])
      else if args = [''cud1''] then (0, [CHR 0x0A])
      else if args = [''cuu1''] then (0, [CHR 0x1B] @ ''[A'')
      else if args = [''kcuu1''] then (0, [CHR 0x1B] @ ''OA'')
      else if args = [''kcud1''] then (0, [CHR 0x1B] @ ''OB'')
      else if args = [''dl1''] then (0, [CHR 0x1B] @ ''[M'')
      else if args = [''sgr0''] then (0, [CHR 0x1B] @ ''[m'')
      else if args = [''smso''] then (0, [CHR 0x1B] @ ''[7m'')
      else if args = [''bold''] then (0, [CHR 0x1B] @ ''[1m'')
      else if args = [''setaf'', ''1''] then (0, [CHR 0x1B] @ ''[31m'')
      else if args = [''smkx''] then (0, [CHR 0x1B] @ ''[?1h'')
      else if args = [''rmkx''] then (0, [CHR 0x1B] @ ''[?1l'')
      else if args = [''civis''] then (0, [CHR 0x1B] @ ''[?25l'')
      else if args = [''cnorm''] then (0, [CHR 0x1B] @ ''[?25h'')
      else (1, []))"

text \<open>A monochrome terminal: \<open>tput colors\<close> prints \<open>-1\<close>.\<close>

definition mono_tput :: tput where
  "mono_tput args =
     (if args = [''colors''] then (0, ''-1'' @ [CHR 0x0A])
      else if args = [''setaf'', ''1''] then (0, [CHR 0x1B] @ ''[31m'')
      else xterm_tput args)"

text \<open>A terminfo installation that does not know \<open>sitm\<close>: \<open>tput\<close> exits with code 4.\<close>

definition old_tput :: tput where
  "old_tput args = (if args = [''sitm''] then (4, []) else xterm_tput args)"

definition cooked_attrs :: termios_attrs where
  "cooked_attrs =
     \<lparr>iflag = 0x500, oflag = 5, cflag = 0xBF, lflag = 0x8A3B, ispeed = 15, ospeed = 15,
      cc = []\<rparr>"

definition fresh_state :: state where
  \<comment> \<open>a process that has just started on a terminal in its usual line mode\<close>
  "fresh_state =
     \<lparr>stdin = Some 0, tty_attrs = cooked_attrs, termios_calls = [], stdout = Some [],
      stderr = [],
      codename_to_terminal_code = None, terminal_code_to_codename = None\<rparr>"

definition abc_menu :: terminal_menu where
  "abc_menu =
     \<lparr>fd = 0, menu_entries = [''a'', ''b'', ''c''], title = None, menu_cursor = ''> '',
      menu_cursor_style = [''fg_red'', ''bold''], menu_highlight_style = [''standout''],
      cycle_cursor = True, old_term = None, new_term = None\<rparr>"

definition abc_namespace :: namespace where
  "abc_namespace =
     \<lparr>ns_title = None, ns_cursor = ''> '', ns_cursor_style = ''fg_red,bold'',
      ns_highlight_style = ''standout'', ns_cycle = True, ns_print_version = False,
      ns_entries = [''a'', ''b'', ''c'']\<rparr>"


definition ready_state :: state where
  \<comment> \<open>\<open>fresh_state\<close> after the capability maps have been built from \<open>xterm_tput\<close>\<close>
  "ready_state = snd (init_terminal_codes xterm_tput fresh_state)"

section \<open>Predicates used in the proofs\<close>

text \<open>
  What the menu is displayed with: blanks, carriage returns, line feeds, the cursor glyph,
  the entries, the title, and the terminal codes of the forward map \<open>d\<close>.  A display
  text is a concatenation of such pieces.
\<close>

definition display_pieces :: "terminal_menu \<Rightarrow> dict \<Rightarrow> string set" where
  "display_pieces self d =
     {'' '', [CHR 0x0D], [CHR 0x0A], menu_cursor self} \<union> set (menu_entries self)
       \<union> set_option (title self) \<union> ran (map_of d)"

definition display_text :: "string set \<Rightarrow> string \<Rightarrow> bool" where
  "display_text A s \<longleftrightarrow> (\<exists>ps. set ps \<subseteq> A \<and> s = concat ps)"

text \<open>
  An action that, on every state with the forward map \<open>d\<close> and a usable output stream,
  succeeds and only appends a text made of pieces of \<open>A\<close> to standard output.
\<close>

definition appends_output :: "dict \<Rightarrow> string set \<Rightarrow> unit io \<Rightarrow> bool" where
  "appends_output d A m \<longleftrightarrow>
     (\<forall>w out. codename_to_terminal_code w = Some d \<and> stdout w = Some out \<longrightarrow>
        (\<exists>s. display_text A s \<and> m w = (Inr (), w\<lparr>stdout := Some (out @ s)\<rparr>)))"

text \<open>The forward map holds every known codename and every style of the menu.\<close>

definition menu_codes_ok :: "terminal_menu \<Rightarrow> dict \<Rightarrow> bool" where
  "menu_codes_ok self d \<longleftrightarrow>
     list_all (\<lambda>c. map_of d c \<noteq> None)
       (codenames @ menu_cursor_style self @ menu_highlight_style self)"

text \<open>
  What \<open>clear_menu\<close> and \<open>_reset_term\<close> write, in this order: the deletion of the title
  line and of the entry lines, then \<open>cursor_visible\<close> and \<open>exit_application_mode\<close>.
\<close>

definition code_text :: "dict \<Rightarrow> string \<Rightarrow> string" where
  "code_text d codename = (case map_of d codename of Some code \<Rightarrow> code | None \<Rightarrow> [])"

definition teardown_text :: "terminal_menu \<Rightarrow> dict \<Rightarrow> string" where
  "teardown_text self d =
     (if title self \<noteq> None then code_text d ''cursor_up'' @ code_text d ''delete_line'' else [])
     @ str_repeat (int (length (menu_entries self))) (code_text d ''delete_line'')
     @ code_text d ''cursor_visible'' @ code_text d ''exit_application_mode''"

section \<open>Auxiliary facts\<close>

lemma map_of_fold_update:
  "map_of (fold (\<lambda>(k, v) acc. AList.update k v acc) xs acc0) = map_of acc0 ++ map_of (rev xs)"
proof (induction xs arbitrary: acc0)
  case Nil
  show ?case by simp
next
  case (Cons x xs)
  obtain k v where x: "x = (k, v)" by (cases x)
  show ?case
    by (simp add: x Cons.IH AList.update_conv' map_add_upd_left fun_eq_iff map_add_def split: option.splits)
qed

lemma distinct_fold_update:
  "distinct (map fst acc0) \<Longrightarrow> distinct (map fst (fold (\<lambda>(k, v) acc. AList.update k v acc) xs acc0))"
  by (induction xs arbitrary: acc0) (auto simp: AList.distinct_update)

lemma map_of_dict_update: "map_of (dict_update d other) = map_of d ++ map_of (rev other)"
  by (simp add: dict_update_def map_of_fold_update)

lemma distinct_dict_update: "distinct (map fst d) \<Longrightarrow> distinct (map fst (dict_update d other))"
  by (simp add: dict_update_def distinct_fold_update)

lemma invert_codes_fold:
  "invert_codes d = fold (\<lambda>(k, v) acc. AList.update k v acc) (map (\<lambda>(c, t). (t, c)) d) []"
  by (simp add: invert_codes_def fold_map comp_def case_prod_unfold)

lemma map_of_invert_codes:
  "map_of (invert_codes d) = map_of (rev (map (\<lambda>(c, t). (t, c)) d))"
  by (simp add: invert_codes_fold map_of_fold_update)

lemma invert_codes_sound:
  assumes "distinct (map fst d)" and "map_of (invert_codes d) t = Some c"
  shows "map_of d c = Some t"
proof -
  from assms(2) have "(t, c) \<in> set (rev (map (\<lambda>(c, t). (t, c)) d))"
    by (simp only: map_of_invert_codes) (rule map_of_SomeD)
  then have "(c, t) \<in> set d" by auto
  with assms(1) show ?thesis by simp
qed

lemma invert_codes_total:
  assumes "map_of d c = Some t"
  shows "\<exists>c'. map_of (invert_codes d) t = Some c'"
proof -
  from assms have "(c, t) \<in> set d" by (rule map_of_SomeD)
  then have "t \<in> fst ` set (rev (map (\<lambda>(c, t). (t, c)) d))" by force
  then have "map_of (rev (map (\<lambda>(c, t). (t, c)) d)) t \<noteq> None"
    by (simp only: map_of_eq_None_iff not_not)
  then show ?thesis by (auto simp: map_of_invert_codes)
qed

lemma query_error:
  "query_terminfo_database tput c = Inl e \<Longrightarrow> \<exists>rc. e = CalledProcessError rc \<and> rc \<noteq> 0 \<and> rc \<noteq> 1"
  by (auto simp: query_terminfo_database_def check_output_def Let_def split: prod.splits if_splits sum.splits exn.splits)

lemma terminal_codes_of_lookup:
  "terminal_codes_of tput n cs d0 = Inr d \<Longrightarrow>
     map_of d c =
       (if c \<in> set cs then
          (if \<not> is_color_codename c \<or> n \<ge> 8 then
             (case query_terminfo_database tput c of Inr t \<Rightarrow> Some t | Inl e \<Rightarrow> None)
           else Some [])
        else map_of d0 c)"
proof (induction cs arbitrary: d0)
  case Nil
  then show ?case by simp
next
  case (Cons c' rest)
  then show ?case
    by (auto simp: AList.update_conv' split: sum.splits if_splits)
qed

lemma terminal_codes_of_distinct:
  "terminal_codes_of tput n cs d0 = Inr d \<Longrightarrow> distinct (map fst d0) \<Longrightarrow> distinct (map fst d)"
proof (induction cs arbitrary: d0)
  case Nil
  then show ?case by simp
next
  case (Cons c' rest)
  then show ?case
    by (auto simp: AList.distinct_update split: sum.splits if_splits)
qed

lemma terminal_codes_of_fatal:
  "c \<in> set cs \<Longrightarrow> \<not> is_color_codename c \<or> n \<ge> 8 \<Longrightarrow> query_terminfo_database tput c = Inl e \<Longrightarrow>
     \<exists>e'. terminal_codes_of tput n cs d0 = Inl e'"
proof (induction cs arbitrary: d0)
  case Nil
  then show ?case by simp
next
  case (Cons c' rest)
  then show ?case
    by (cases "c = c'") (auto split: sum.splits)
qed

lemma terminal_codes_of_error:
  "terminal_codes_of tput n cs d0 = Inl e \<Longrightarrow> \<exists>rc. e = CalledProcessError rc \<and> rc \<noteq> 0 \<and> rc \<noteq> 1"
proof (induction cs arbitrary: d0)
  case Nil
  then show ?case by simp
next
  case (Cons c' rest)
  then show ?case
    by (auto split: sum.splits if_splits dest: query_error)
qed

lemma terminal_codes_of_succeeds:
  "(\<forall>c \<in> set cs. \<not> is_color_codename c \<or> n \<ge> 8 \<longrightarrow> (\<exists>t. query_terminfo_database tput c = Inr t)) \<Longrightarrow>
     \<exists>d. terminal_codes_of tput n cs d0 = Inr d"
proof (induction cs arbitrary: d0)
  case Nil
  then show ?case by simp
next
  case (Cons c' rest)
  then show ?case
    by (auto split: sum.splits)
qed

lemma control_names_not_codenames: "''enter'' \<notin> set codenames" "''escape'' \<notin> set codenames"
  by (simp_all add: codenames_def codename_to_capname_def)

lemma codenames_keys: "c \<in> set codenames \<longleftrightarrow> map_of codename_to_capname c \<noteq> None"
  by (simp add: codenames_def map_of_eq_None_iff)

text \<open>What a successful first initialisation leaves in the class attributes.\<close>

lemma init_terminal_codes_fresh:
  assumes "codename_to_terminal_code w = None"
    and "init_terminal_codes tput w = (Inr u, w')"
  obtains colors n d0 where
    "query_terminfo_database tput ''colors'' = Inr colors"
    "py_int colors = Some n"
    "terminal_codes_of tput n codenames [] = Inr d0"
    "w' = w\<lparr>codename_to_terminal_code := Some (dict_update d0 name_to_control_character),
            terminal_code_to_codename := Some (invert_codes (dict_update d0 name_to_control_character))\<rparr>"
  using assms
  by (auto simp: init_terminal_codes_def Let_def split: sum.splits option.splits)

lemma built_codes_lookup:
  assumes "terminal_codes_of tput n codenames [] = Inr d0"
    and "d = dict_update d0 name_to_control_character"
  shows "c \<in> set codenames \<Longrightarrow> map_of d c = map_of d0 c"
    and "c \<in> set codenames \<Longrightarrow> map_of d c \<noteq> None"
    and "map_of d ''enter'' = Some [CHR 0x0A]"
    and "map_of d ''escape'' = Some [CHR 0x1B]"
    and "distinct (map fst d)"
    and "map_of d c = Some t \<Longrightarrow> c \<in> set codenames \<or> c = ''enter'' \<or> c = ''escape''"
proof -
  have md: "map_of d = map_of d0 ++ map_of (rev name_to_control_character)"
    by (simp add: assms(2) map_of_dict_update)
  have l0: "\<And>c. map_of d0 c = (if c \<in> set codenames then
          (if \<not> is_color_codename c \<or> n \<ge> 8 then
             (case query_terminfo_database tput c of Inr t \<Rightarrow> Some t | Inl e \<Rightarrow> None)
           else Some [])
        else None)"
    using terminal_codes_of_lookup[OF assms(1)] by simp
  show "c \<in> set codenames \<Longrightarrow> map_of d c = map_of d0 c"
    using control_names_not_codenames
    by (auto simp: md name_to_control_character_def map_add_def split: option.splits)
  show "map_of d ''enter'' = Some [CHR 0x0A]" "map_of d ''escape'' = Some [CHR 0x1B]"
    by (simp_all add: md name_to_control_character_def map_add_def)
  show "distinct (map fst d)"
    using terminal_codes_of_distinct[OF assms(1)] by (simp add: assms(2) distinct_dict_update)
  show "map_of d c = Some t \<Longrightarrow> c \<in> set codenames \<or> c = ''enter'' \<or> c = ''escape''"
    by (auto simp: md l0 name_to_control_character_def map_add_def split: option.splits if_splits)
  show "c \<in> set codenames \<Longrightarrow> map_of d c \<noteq> None"
  proof -
    assume c: "c \<in> set codenames"
    have "\<not> is_color_codename c \<or> n \<ge> 8 \<Longrightarrow> \<exists>t. query_terminfo_database tput c = Inr t"
    proof (rule ccontr)
      assume p: "\<not> is_color_codename c \<or> n \<ge> 8" and "\<nexists>t. query_terminfo_database tput c = Inr t"
      then obtain e where "query_terminfo_database tput c = Inl e"
        by (cases "query_terminfo_database tput c") auto
      then have "\<exists>e'. terminal_codes_of tput n codenames [] = Inl e'"
        by (rule terminal_codes_of_fatal[OF c p])
      with assms(1) show False by auto
    qed
    then have "map_of d0 c \<noteq> None" using c by (auto simp: l0)
    moreover have "map_of d c = map_of d0 c"
      using c control_names_not_codenames
      by (auto simp: md name_to_control_character_def map_add_def split: option.splits)
    ultimately show ?thesis by simp
  qed
qed

lemma update_absent: "map_of al k = None \<Longrightarrow> AList.update k v al = al @ [(k, v)]"
  by (induction al) (auto split: if_splits)

lemma invert_enter_escape:
  assumes "terminal_codes_of tput n codenames [] = Inr d0"
    and "d = dict_update d0 name_to_control_character"
  shows "map_of (invert_codes d) [CHR 0x0A] = Some ''enter''"
    and "map_of (invert_codes d) [CHR 0x1B] = Some ''escape''"
proof -
  have ne: "map_of d0 ''enter'' = None" "map_of d0 ''escape'' = None"
    using terminal_codes_of_lookup[OF assms(1)] control_names_not_codenames by simp_all
  have d: "d = d0 @ name_to_control_character"
    using ne
    by (simp add: assms(2) dict_update_def name_to_control_character_def
        update_absent map_of_append)
  show "map_of (invert_codes d) [CHR 0x0A] = Some ''enter''"
    and "map_of (invert_codes d) [CHR 0x1B] = Some ''escape''"
    by (simp_all add: d map_of_invert_codes name_to_control_character_def)
qed

lemma check_for_valid_styles_ok:
  "check_for_valid_styles self = Inr u \<longleftrightarrow> invalid_styles_of self = []"
  by (simp add: check_for_valid_styles_def Let_def)

lemma check_for_valid_styles_error:
  "invalid_styles_of self \<noteq> [] \<Longrightarrow> \<exists>msg. check_for_valid_styles self = Inl (InvalidStyleError msg)"
  by (simp add: check_for_valid_styles_def Let_def)

lemma query_absent:
  "fst (tput (tput_args c)) = 1 \<Longrightarrow> query_terminfo_database tput c = Inr []"
  by (auto simp: query_terminfo_database_def check_output_def tput_args_def Let_def split: prod.splits)

lemma query_fatal:
  "fst (tput (tput_args c)) \<noteq> 0 \<Longrightarrow> fst (tput (tput_args c)) \<noteq> 1 \<Longrightarrow>
     query_terminfo_database tput c = Inl (CalledProcessError (fst (tput (tput_args c))))"
  by (auto simp: query_terminfo_database_def check_output_def tput_args_def Let_def split: prod.splits)

lemma init_terminal_codes_cached_code:
  assumes fresh: "codename_to_terminal_code w = None"
    and ok: "init_terminal_codes tput w = (Inr u, w')"
    and c: "c \<in> set codenames"
  shows "cached_code w' c =
           (if \<not> is_color_codename c
               \<or> (case query_terminfo_database tput ''colors'' of
                     Inr colors \<Rightarrow> (case py_int colors of Some n \<Rightarrow> n \<ge> 8 | None \<Rightarrow> False)
                   | Inl e \<Rightarrow> False)
            then (case query_terminfo_database tput c of Inr t \<Rightarrow> Some t | Inl e \<Rightarrow> None)
            else Some [])"
proof -
  from fresh ok obtain colors n d0 where
    q: "query_terminfo_database tput ''colors'' = Inr colors" and
    n: "py_int colors = Some n" and
    d0: "terminal_codes_of tput n codenames [] = Inr d0" and
    w': "w' = w\<lparr>codename_to_terminal_code := Some (dict_update d0 name_to_control_character),
            terminal_code_to_codename := Some (invert_codes (dict_update d0 name_to_control_character))\<rparr>"
    by (rule init_terminal_codes_fresh)
  have "cached_code w' c = map_of d0 c"
    using built_codes_lookup(1)[OF d0 refl c] by (simp add: cached_code_def w')
  also have "\<dots> = (if \<not> is_color_codename c \<or> n \<ge> 8
            then (case query_terminfo_database tput c of Inr t \<Rightarrow> Some t | Inl e \<Rightarrow> None)
            else Some [])"
    using terminal_codes_of_lookup[OF d0, of c] c by simp
  finally show ?thesis by (simp add: q n)
qed

lemma init_terminal_codes_fatal:
  assumes fresh: "codename_to_terminal_code w = None"
    and performed: "c = ''colors'' \<or>
        (\<exists>colors n. query_terminfo_database tput ''colors'' = Inr colors \<and> py_int colors = Some n
           \<and> c \<in> set codenames \<and> (\<not> is_color_codename c \<or> n \<ge> 8))"
    and rc: "fst (tput (tput_args c)) \<noteq> 0" "fst (tput (tput_args c)) \<noteq> 1"
  shows "\<exists>rc. rc \<noteq> 0 \<and> rc \<noteq> 1 \<and> init_terminal_codes tput w = (Inl (CalledProcessError rc), w)"
proof -
  have f: "query_terminfo_database tput c = Inl (CalledProcessError (fst (tput (tput_args c))))"
    using rc by (rule query_fatal)
  from performed show ?thesis
  proof
    assume "c = ''colors''"
    then show ?thesis using f rc fresh by (auto simp: init_terminal_codes_def)
  next
    assume "\<exists>colors n. query_terminfo_database tput ''colors'' = Inr colors \<and> py_int colors = Some n
           \<and> c \<in> set codenames \<and> (\<not> is_color_codename c \<or> n \<ge> 8)"
    then obtain colors n where q: "query_terminfo_database tput ''colors'' = Inr colors"
      and n: "py_int colors = Some n" and c: "c \<in> set codenames"
      and p: "\<not> is_color_codename c \<or> n \<ge> 8" by blast
    obtain e' where e': "terminal_codes_of tput n codenames [] = Inl e'"
      using terminal_codes_of_fatal[OF c p f] by blast
    then obtain rc' where "e' = CalledProcessError rc'" "rc' \<noteq> 0" "rc' \<noteq> 1"
      using terminal_codes_of_error by blast
    then show ?thesis using e' q n fresh by (auto simp: init_terminal_codes_def)
  qed
qed

lemma TerminalMenu_valid_styles:
  assumes "set (case cursor_style of Some s \<Rightarrow> s | None \<Rightarrow> [])
             \<union> set (case highlight_style of Some s \<Rightarrow> s | None \<Rightarrow> []) \<subseteq> set codenames"
    and "stdin w = Some fileno"
  shows "TerminalMenu tput entries ttl cursor cursor_style highlight_style cycle w =
           (case init_terminal_codes tput w of
              (Inl e, w') \<Rightarrow> (Inl e, w')
            | (Inr u, w') \<Rightarrow>
                (Inr \<lparr>fd = fileno, menu_entries = entries, title = ttl,
                      menu_cursor = (case cursor of Some c \<Rightarrow> c | None \<Rightarrow> []),
                      menu_cursor_style = (case cursor_style of Some s \<Rightarrow> s | None \<Rightarrow> []),
                      menu_highlight_style = (case highlight_style of Some s \<Rightarrow> s | None \<Rightarrow> []),
                      cycle_cursor = cycle, old_term = None, new_term = None\<rparr>, w'))"
proof -
  define self where "self = \<lparr>fd = fileno, menu_entries = entries, title = ttl,
      menu_cursor = (case cursor of Some c \<Rightarrow> c | None \<Rightarrow> []),
      menu_cursor_style = (case cursor_style of Some s \<Rightarrow> s | None \<Rightarrow> []),
      menu_highlight_style = (case highlight_style of Some s \<Rightarrow> s | None \<Rightarrow> []),
      cycle_cursor = cycle, old_term = None, new_term = None\<rparr>"
  from assms(1) have "invalid_styles_of self = []"
    by (auto simp: invalid_styles_of_def self_def codenames_keys filter_empty_conv)
  then have "check_for_valid_styles self = Inr ()"
    by (simp add: check_for_valid_styles_ok)
  then show ?thesis
    by (simp add: TerminalMenu_def assms(2) self_def Let_def split: prod.splits sum.splits)
qed

lemma TerminalMenu_no_stdin:
  "stdin w = None \<Longrightarrow>
     TerminalMenu tput entries ttl cursor cursor_style highlight_style cycle w
       = (Inl AttributeError, w)"
  by (simp add: TerminalMenu_def)

lemma fresh_state_fresh: "codename_to_terminal_code fresh_state = None"
  by (simp add: fresh_state_def)

section \<open>Auxiliary facts about rendering and the session\<close>

lemma display_text_Nil: "display_text A []"
  unfolding display_text_def by (rule exI[of _ "[]"]) simp

lemma display_text_piece: "s \<in> A \<Longrightarrow> display_text A s"
  unfolding display_text_def by (rule exI[of _ "[s]"]) simp

lemma display_text_append:
  assumes "display_text A s" and "display_text A t"
  shows "display_text A (s @ t)"
proof -
  from assms obtain ps qs where "set ps \<subseteq> A" "s = concat ps" "set qs \<subseteq> A" "t = concat qs"
    unfolding display_text_def by blast
  then show ?thesis
    unfolding display_text_def by (intro exI[of _ "ps @ qs"]) simp
qed

lemma display_text_replicate: "display_text A s \<Longrightarrow> display_text A (concat (replicate k s))"
  by (induction k) (simp_all add: display_text_Nil display_text_append)

lemma display_text_repeat: "display_text A s \<Longrightarrow> display_text A (str_repeat n s)"
  by (simp add: str_repeat_def display_text_replicate)

lemma display_pieces_basic:
  "'' '' \<in> display_pieces self d" "[CHR 0x0D] \<in> display_pieces self d"
  "[CHR 0x0A] \<in> display_pieces self d" "menu_cursor self \<in> display_pieces self d"
  by (simp_all add: display_pieces_def)

lemma display_pieces_entry: "e \<in> set (menu_entries self) \<Longrightarrow> e \<in> display_pieces self d"
  by (simp add: display_pieces_def)

lemma display_pieces_title: "title self = Some t \<Longrightarrow> t \<in> display_pieces self d"
  by (simp add: display_pieces_def)

lemma display_pieces_code: "map_of d c = Some t \<Longrightarrow> t \<in> display_pieces self d"
  by (simp add: display_pieces_def ranI)

lemma display_pieces_terms:
  "display_pieces (self\<lparr>old_term := a\<rparr>) d = display_pieces self d"
  "display_pieces (self\<lparr>new_term := b\<rparr>) d = display_pieces self d"
  by (simp_all add: display_pieces_def)

lemmas display_piece_facts =
  display_pieces_basic display_pieces_entry display_pieces_title display_pieces_code

lemma appends_outputD:
  "appends_output d A m \<Longrightarrow> codename_to_terminal_code w = Some d \<Longrightarrow> stdout w = Some out \<Longrightarrow>
     \<exists>s. display_text A s \<and> m w = (Inr (), w\<lparr>stdout := Some (out @ s)\<rparr>)"
  by (simp add: appends_output_def)

lemma appends_return: "appends_output d A (return_io ())"
  by (auto simp: appends_output_def return_io_def display_text_Nil intro: exI[of _ "[]"])

lemma appends_write: "display_text A s \<Longrightarrow> appends_output d A (stdout_write s)"
  by (auto simp: appends_output_def stdout_write_def)

lemma appends_flush: "appends_output d A stdout_flush"
  by (auto simp: appends_output_def stdout_flush_def display_text_Nil intro: exI[of _ "[]"])

lemma appends_print: "display_text A (s @ [CHR 0x0A]) \<Longrightarrow> appends_output d A (print_stdout s)"
  by (auto simp: appends_output_def print_stdout_def)

lemma appends_if:
  "(c \<Longrightarrow> appends_output d A x) \<Longrightarrow> (\<not> c \<Longrightarrow> appends_output d A y) \<Longrightarrow>
     appends_output d A (if c then x else y)"
  by simp

lemma appends_bind:
  assumes "appends_output d A m" and "\<And>x. appends_output d A (f x)"
  shows "appends_output d A (bind_io m f)"
  unfolding appends_output_def
proof (intro allI impI)
  fix w :: state and out assume a: "codename_to_terminal_code w = Some d \<and> stdout w = Some out"
  then obtain s where ds: "display_text A s" and s: "m w = (Inr (), w\<lparr>stdout := Some (out @ s)\<rparr>)"
    using appends_outputD[OF assms(1)] by blast
  obtain t where dt: "display_text A t" and
    t: "f () (w\<lparr>stdout := Some (out @ s)\<rparr>)
          = (Inr (), w\<lparr>stdout := Some (out @ s)\<rparr>\<lparr>stdout := Some ((out @ s) @ t)\<rparr>)"
    using appends_outputD[OF assms(2), of "w\<lparr>stdout := Some (out @ s)\<rparr>" "out @ s" "()"] a by auto
  show "\<exists>s. display_text A s \<and> bind_io m f w = (Inr (), w\<lparr>stdout := Some (out @ s)\<rparr>)"
    by (rule exI[of _ "s @ t"]) (simp add: bind_io_def s t display_text_append ds dt)
qed

lemma appends_sequence: "list_all (appends_output d A) ms \<Longrightarrow> appends_output d A (sequence_io ms)"
  by (induction ms) (simp_all add: appends_return appends_bind)

lemma appends_for_each:
  "(\<And>x. x \<in> set xs \<Longrightarrow> appends_output d A (body x)) \<Longrightarrow> appends_output d A (for_each xs body)"
  by (induction xs) (simp_all add: appends_return appends_bind)

lemma appends_terminal_code:
  assumes "map_of d c \<noteq> None" and "\<And>t. map_of d c = Some t \<Longrightarrow> appends_output d A (f t)"
  shows "appends_output d A (bind_io (terminal_code c) f)"
  unfolding appends_output_def
proof (intro allI impI)
  fix w :: state and out assume a: "codename_to_terminal_code w = Some d \<and> stdout w = Some out"
  from assms(1) obtain t where t: "map_of d c = Some t" by auto
  have "bind_io (terminal_code c) f w = f t w"
    using a t by (simp add: bind_io_def terminal_code_def)
  then show "\<exists>s. display_text A s \<and> bind_io (terminal_code c) f w = (Inr (), w\<lparr>stdout := Some (out @ s)\<rparr>)"
    using appends_outputD[OF assms(2)[OF t], of w out] a by simp
qed

lemma appends_write_code:
  "map_of d c \<noteq> None \<Longrightarrow> appends_output d (display_pieces self d) (write_code c)"
  unfolding write_code_def
  by (rule appends_terminal_code) (auto intro: appends_write display_text_piece display_pieces_code)

lemma menu_codes_okD:
  assumes "menu_codes_ok self d"
  shows "c \<in> set codenames \<Longrightarrow> map_of d c \<noteq> None"
    and "c \<in> set (menu_cursor_style self) \<Longrightarrow> map_of d c \<noteq> None"
    and "c \<in> set (menu_highlight_style self) \<Longrightarrow> map_of d c \<noteq> None"
  using assms by (auto simp: menu_codes_ok_def list_all_iff)

lemma used_codenames:
  "''cursor_up'' \<in> set codenames" "''cursor_down'' \<in> set codenames"
  "''delete_line'' \<in> set codenames" "''reset_attributes'' \<in> set codenames"
  "''enter_application_mode'' \<in> set codenames" "''exit_application_mode'' \<in> set codenames"
  "''cursor_invisible'' \<in> set codenames" "''cursor_visible'' \<in> set codenames"
  by (simp_all add: codenames_def codename_to_capname_def)

lemma used_codes_ok:
  assumes "menu_codes_ok self d"
  shows "map_of d ''cursor_up'' \<noteq> None" "map_of d ''cursor_down'' \<noteq> None"
    "map_of d ''delete_line'' \<noteq> None" "map_of d ''reset_attributes'' \<noteq> None"
    "map_of d ''enter_application_mode'' \<noteq> None" "map_of d ''exit_application_mode'' \<noteq> None"
    "map_of d ''cursor_invisible'' \<noteq> None" "map_of d ''cursor_visible'' \<noteq> None"
  using assms used_codenames by (auto dest: menu_codes_okD(1))

lemmas appends_intros =
  appends_if appends_write appends_return appends_flush appends_for_each appends_write_code
  appends_terminal_code display_text_append display_text_repeat

lemma appends_print_entry:
  assumes ok: "menu_codes_ok self d" and e: "menu_entry \<in> set (menu_entries self)"
  shows "appends_output d (display_pieces self d) (print_entry self selected_index i menu_entry)"
  unfolding print_entry_def
  apply (rule appends_sequence)
  apply (simp only: list.pred_inject simp_thms)
  apply (intro conjI TrueI appends_intros)
  using e by (auto intro: display_text_piece display_piece_facts
      dest: menu_codes_okD[OF ok] simp: used_codes_ok[OF ok])

lemma appends_print_entries:
  "menu_codes_ok self d \<Longrightarrow> set es \<subseteq> set (menu_entries self) \<Longrightarrow>
     appends_output d (display_pieces self d) (print_entries self selected_index i es)"
  by (induction es arbitrary: i) (simp_all add: appends_return appends_bind appends_print_entry)

lemma appends_print_menu:
  assumes ok: "menu_codes_ok self d"
  shows "appends_output d (display_pieces self d) (print_menu self selected_index with_title)"
proof -
  have t: "appends_output d (display_pieces self d)
             (case title self of
                Some t \<Rightarrow> if with_title then print_stdout t else return_io ()
              | None \<Rightarrow> return_io ())"
    by (cases "title self")
       (auto intro!: appends_return appends_print display_text_append
             intro: display_text_piece display_piece_facts)
  show ?thesis
    unfolding print_menu_def
    apply (rule appends_sequence)
    apply (simp only: list.pred_inject simp_thms)
    apply (intro conjI TrueI t appends_print_entries[OF ok] appends_intros)
    by (auto intro: display_text_piece display_piece_facts simp: used_codes_ok[OF ok])
qed

lemma appends_clear_menu:
  assumes ok: "menu_codes_ok self d"
  shows "appends_output d (display_pieces self d) (clear_menu self)"
  unfolding clear_menu_def
  apply (rule appends_sequence)
  apply (simp only: list.pred_inject simp_thms)
  apply (intro conjI TrueI appends_intros)
  by (auto intro: display_text_piece display_piece_facts simp: used_codes_ok[OF ok])

lemma appends_position_cursor:
  assumes ok: "menu_codes_ok self d"
  shows "appends_output d (display_pieces self d) (position_cursor self selected_index)"
  unfolding position_cursor_def Let_def
  apply (rule appends_sequence)
  apply (simp only: list.pred_inject simp_thms)
  apply (intro conjI TrueI appends_intros)
  by (auto intro: display_text_piece display_piece_facts
      dest: menu_codes_okD[OF ok] simp: used_codes_ok[OF ok])

lemma read_next_key_cong:
  "terminal_code_to_codename w' = terminal_code_to_codename w \<Longrightarrow>
     read_next_key ic e w' = read_next_key ic e w"
  by (cases e) (simp_all add: read_next_key_def)

lemma menu_codes_ok_terms:
  "menu_codes_ok (self\<lparr>old_term := a\<rparr>) d = menu_codes_ok self d"
  "menu_codes_ok (self\<lparr>new_term := b\<rparr>) d = menu_codes_ok self d"
  by (simp_all add: menu_codes_ok_def)

text \<open>The renderer and the transition do not look at the saved terminal attributes.\<close>

lemma print_entries_terms:
  "print_entries (self\<lparr>old_term := a, new_term := b\<rparr>) sel i es = print_entries self sel i es"
  by (induction es arbitrary: i) (simp_all add: print_entry_def)

lemma renderer_terms:
  "print_menu (self\<lparr>old_term := a, new_term := b\<rparr>) sel wt = print_menu self sel wt"
  "position_cursor (self\<lparr>old_term := a, new_term := b\<rparr>) sel = position_cursor self sel"
  "clear_menu (self\<lparr>old_term := a, new_term := b\<rparr>) = clear_menu self"
  "key_transition (self\<lparr>old_term := a, new_term := b\<rparr>) sel k = key_transition self sel k"
  by (simp_all add: print_menu_def print_entries_terms position_cursor_def clear_menu_def
        key_transition_def Let_def)

lemma show_loop_terms:
  "show_loop (self\<lparr>old_term := a, new_term := b\<rparr>) i inputs w = show_loop self i inputs w"
  by (induction inputs arbitrary: i w)
     (simp_all add: renderer_terms cong: prod.case_cong sum.case_cong loop_step.case_cong)

lemma active_after_terms:
  "active_after (self\<lparr>old_term := a, new_term := b\<rparr>) i inputs w = active_after self i inputs w"
  by (induction inputs arbitrary: i w)
     (simp_all add: renderer_terms cong: prod.case_cong sum.case_cong loop_step.case_cong)

lemma code_text_Some: "map_of d c = Some t \<Longrightarrow> code_text d c = t"
  by (simp add: code_text_def)

lemma init_term_ok:
  assumes codes: "codename_to_terminal_code w = Some d" and out: "stdout w = Some out"
    and ok: "menu_codes_ok self d"
  shows "init_term self w =
           (Inr (),
            self\<lparr>old_term := Some (tty_attrs w), new_term := Some (raw_mode (tty_attrs w))\<rparr>,
            w\<lparr>tty_attrs := raw_mode (tty_attrs w),
              termios_calls := termios_calls w @
                [TcGetAttr (fd self), TcGetAttr (fd self), TcSetAttr (fd self) (raw_mode (tty_attrs w))],
              stdout := Some (out @ code_text d ''enter_application_mode''
                                  @ code_text d ''cursor_invisible'')\<rparr>)"
proof -
  from used_codes_ok[OF ok] obtain a b where
    "map_of d ''enter_application_mode'' = Some a" "map_of d ''cursor_invisible'' = Some b"
    by auto
  then show ?thesis
    by (simp add: init_term_def codes out tcgetattr_def tcsetattr_def bind_io_def return_io_def
          write_code_def terminal_code_def stdout_write_def Let_def raw_mode_def code_text_def)
qed

lemma teardown_ok:
  assumes codes: "codename_to_terminal_code w = Some d" and out: "stdout w = Some out"
    and ok: "menu_codes_ok self d" and old: "old_term self = Some old"
  shows "sequence_io [clear_menu self, reset_term self] w =
           (Inr (),
            w\<lparr>tty_attrs := old, termios_calls := termios_calls w @ [TcSetAttr (fd self) old],
              stdout := Some (out @ teardown_text self d)\<rparr>)"
proof -
  from used_codes_ok[OF ok] obtain a b c e where
    "map_of d ''cursor_up'' = Some a" "map_of d ''delete_line'' = Some b"
    "map_of d ''cursor_visible'' = Some c" "map_of d ''exit_application_mode'' = Some e"
    by auto
  then show ?thesis
    by (simp add: clear_menu_def reset_term_def codes out old tcsetattr_def bind_io_def
          return_io_def write_code_def terminal_code_def stdout_write_def stdout_flush_def
          teardown_text_def code_text_def)
qed

lemma display_text_code:
  "menu_codes_ok self d \<Longrightarrow> c \<in> set codenames \<Longrightarrow>
     display_text (display_pieces self d) (code_text d c)"
  by (auto simp: code_text_def intro: display_text_piece display_pieces_code
        dest: menu_codes_okD(1) split: option.splits)

lemma display_text_teardown:
  "menu_codes_ok self d \<Longrightarrow> display_text (display_pieces self d) (teardown_text self d)"
  unfolding teardown_text_def
  by (auto intro!: display_text_append display_text_repeat display_text_code display_text_Nil
        simp: used_codenames)

lemma show_loop_frame:
  assumes ok: "menu_codes_ok self d"
  shows "codename_to_terminal_code w = Some d \<Longrightarrow> stdout w = Some out \<Longrightarrow>
         show_loop self i inputs w = Some (r, w') \<Longrightarrow>
         \<exists>s. display_text (display_pieces self d) s \<and> w' = w\<lparr>stdout := Some (out @ s)\<rparr>"
proof (induction inputs arbitrary: i w out)
  case Nil
  obtain s where "position_cursor self i w = (Inr (), w\<lparr>stdout := Some (out @ s)\<rparr>)"
    using appends_outputD[OF appends_position_cursor[OF ok] Nil(1,2)] by blast
  with Nil(3) show ?case by simp
next
  case (Cons inp rest)
  obtain s1 where d1: "display_text (display_pieces self d) s1"
    and p: "position_cursor self i w = (Inr (), w\<lparr>stdout := Some (out @ s1)\<rparr>)"
    using appends_outputD[OF appends_position_cursor[OF ok] Cons.prems(1,2)] by blast
  define w1 where "w1 = w\<lparr>stdout := Some (out @ s1)\<rparr>"
  have w1: "codename_to_terminal_code w1 = Some d" "stdout w1 = Some (out @ s1)"
    by (simp_all add: w1_def Cons.prems)
  show ?case
  proof (cases "read_next_key True inp w1")
    case (Inl e)
    with Cons.prems(3) p d1 show ?thesis by (auto simp: w1_def)
  next
    case (Inr k)
    show ?thesis
    proof (cases "key_transition self i k")
      case (Break res)
      with Cons.prems(3) p Inr d1 show ?thesis by (auto simp: w1_def)
    next
      case (Continue i')
      obtain s2 where d2: "display_text (display_pieces self d) s2"
        and m: "print_menu self i' False w1 = (Inr (), w1\<lparr>stdout := Some ((out @ s1) @ s2)\<rparr>)"
        using appends_outputD[OF appends_print_menu[OF ok] w1] by blast
      define w2 where "w2 = w1\<lparr>stdout := Some ((out @ s1) @ s2)\<rparr>"
      have w2: "codename_to_terminal_code w2 = Some d" "stdout w2 = Some (out @ s1 @ s2)"
        by (simp_all add: w2_def w1)
      have "show_loop self i' rest w2 = Some (r, w')"
        using Cons.prems(3) p Inr Continue m by (simp add: w1_def w2_def)
      from Cons.IH[OF w2 this] obtain s where d3: "display_text (display_pieces self d) s"
        and "w' = w2\<lparr>stdout := Some ((out @ s1 @ s2) @ s)\<rparr>"
        by blast
      then have "w' = w\<lparr>stdout := Some (out @ (s1 @ s2 @ s))\<rparr>" by (simp add: w2_def w1_def)
      moreover have "display_text (display_pieces self d) (s1 @ s2 @ s)"
        by (intro display_text_append d1 d2 d3)
      ultimately show ?thesis by blast
    qed
  qed
qed

lemma active_after_frame:
  assumes ok: "menu_codes_ok self d"
  shows "codename_to_terminal_code w = Some d \<Longrightarrow> stdout w = Some out \<Longrightarrow>
         active_after self i inputs w = Some (j, w') \<Longrightarrow>
         \<exists>s. display_text (display_pieces self d) s \<and> w' = w\<lparr>stdout := Some (out @ s)\<rparr>"
proof (induction inputs arbitrary: i w out)
  case Nil
  then show ?case by (auto intro: exI[of _ "[]"] simp: display_text_Nil)
next
  case (Cons inp rest)
  obtain s1 where d1: "display_text (display_pieces self d) s1"
    and p: "position_cursor self i w = (Inr (), w\<lparr>stdout := Some (out @ s1)\<rparr>)"
    using appends_outputD[OF appends_position_cursor[OF ok] Cons.prems(1,2)] by blast
  define w1 where "w1 = w\<lparr>stdout := Some (out @ s1)\<rparr>"
  have w1: "codename_to_terminal_code w1 = Some d" "stdout w1 = Some (out @ s1)"
    by (simp_all add: w1_def Cons.prems)
  from Cons.prems(3) p obtain k i' where k: "read_next_key True inp w1 = Inr k"
     and t: "key_transition self i k = Continue i'"
    by (auto simp: w1_def split: sum.splits loop_step.splits)
  obtain s2 where d2: "display_text (display_pieces self d) s2"
    and m: "print_menu self i' False w1 = (Inr (), w1\<lparr>stdout := Some ((out @ s1) @ s2)\<rparr>)"
    using appends_outputD[OF appends_print_menu[OF ok] w1] by blast
  define w2 where "w2 = w1\<lparr>stdout := Some ((out @ s1) @ s2)\<rparr>"
  have w2: "codename_to_terminal_code w2 = Some d" "stdout w2 = Some (out @ s1 @ s2)"
    by (simp_all add: w2_def w1)
  have "active_after self i' rest w2 = Some (j, w')"
    using Cons.prems(3) p k t m by (simp add: w1_def w2_def)
  from Cons.IH[OF w2 this] obtain s where d3: "display_text (display_pieces self d) s"
    and "w' = w2\<lparr>stdout := Some ((out @ s1 @ s2) @ s)\<rparr>"
    by blast
  then have "w' = w\<lparr>stdout := Some (out @ (s1 @ s2 @ s))\<rparr>" by (simp add: w2_def w1_def)
  moreover have "display_text (display_pieces self d) (s1 @ s2 @ s)"
    by (intro display_text_append d1 d2 d3)
  ultimately show ?case by blast
qed


lemma show_loop_append:
  "active_after self i pre w = Some (j, w1) \<Longrightarrow>
     show_loop self i (pre @ post) w = show_loop self j post w1"
proof (induction pre arbitrary: i w)
  case Nil
  then show ?case by simp
next
  case (Cons inp rest)
  then show ?case
    by (auto split: prod.splits sum.splits loop_step.splits)
qed


lemma active_after_index:
  "menu_entries self \<noteq> [] \<Longrightarrow> 0 \<le> i \<Longrightarrow> i < int (length (menu_entries self)) \<Longrightarrow>
     active_after self i inputs w = Some (j, w') \<Longrightarrow> 0 \<le> j \<and> j < int (length (menu_entries self))"
proof (induction inputs arbitrary: i w)
  case Nil
  then show ?case by simp
next
  case (Cons inp rest)
  from Cons.prems(4) obtain u w1 k i' u2 w2 where
    "position_cursor self i w = (Inr u, w1)" "read_next_key True inp w1 = Inr k"
    and t: "key_transition self i k = Continue i'"
    and "print_menu self i' False w1 = (Inr u2, w2)"
    and a: "active_after self i' rest w2 = Some (j, w')"
    by (auto split: prod.splits sum.splits loop_step.splits)
  from t Cons.prems(1-3) have "0 \<le> i' \<and> i' < int (length (menu_entries self))"
    by (auto simp: key_transition_def Let_def split: if_splits)
  with Cons.IH[OF Cons.prems(1) _ _ a] show ?case by simp
qed

lemma init_term_self:
  "init_term self w = (r, self1, w1) \<Longrightarrow>
     menu_entries self1 = menu_entries self \<and> cycle_cursor self1 = cycle_cursor self"
  by (auto simp: init_term_def tcgetattr_def Let_def split: if_splits prod.splits)

lemma init_term_needs_stdout:
  assumes "stdout w = None"
  shows "fst (init_term self w) \<noteq> Inr u"
  using assms
  by (auto simp: init_term_def tcgetattr_def tcsetattr_def bind_io_def write_code_def
        terminal_code_def stdout_write_def Let_def split: option.splits prod.splits)

text \<open>
  \<open>show\<close> on a state whose output stream and capability map are usable: the state in
  which the loop starts, and the result of \<open>show\<close> from the way the loop body is left.
\<close>

lemma show_unfold:
  fixes self :: terminal_menu and w :: state
  assumes codes: "codename_to_terminal_code w = Some d" and out: "stdout w = Some out"
    and ok: "menu_codes_ok self d"
  shows "\<exists>s0. display_text (display_pieces self d) s0
     \<and> (\<forall>inputs. active_session self inputs w =
          active_after self 0 inputs
            (w\<lparr>tty_attrs := raw_mode (tty_attrs w),
               termios_calls := termios_calls w @
                 [TcGetAttr (fd self), TcGetAttr (fd self), TcSetAttr (fd self) (raw_mode (tty_attrs w))],
               stdout := Some (out @ s0)\<rparr>))
     \<and> (\<forall>inputs. TerminalMenu_show self inputs w =
          (case show_loop self 0 inputs
                  (w\<lparr>tty_attrs := raw_mode (tty_attrs w),
                     termios_calls := termios_calls w @
                       [TcGetAttr (fd self), TcGetAttr (fd self), TcSetAttr (fd self) (raw_mode (tty_attrs w))],
                     stdout := Some (out @ s0)\<rparr>) of
             None \<Rightarrow> None
           | Some (body, w3) \<Rightarrow>
               Some (case body of Inl KeyboardInterrupt \<Rightarrow> Inr None | _ \<Rightarrow> body,
                     w3\<lparr>tty_attrs := tty_attrs w,
                        termios_calls := termios_calls w3 @ [TcSetAttr (fd self) (tty_attrs w)],
                        stdout := Some (the (stdout w3) @ teardown_text self d)\<rparr>)))"
proof -
  define self1 where
    "self1 = self\<lparr>old_term := Some (tty_attrs w), new_term := Some (raw_mode (tty_attrs w))\<rparr>"
  define s1 where "s1 = code_text d ''enter_application_mode'' @ code_text d ''cursor_invisible''"
  define w1 where "w1 = w\<lparr>tty_attrs := raw_mode (tty_attrs w),
      termios_calls := termios_calls w @
        [TcGetAttr (fd self), TcGetAttr (fd self), TcSetAttr (fd self) (raw_mode (tty_attrs w))],
      stdout := Some (out @ s1)\<rparr>"
  have i: "init_term self w = (Inr (), self1, w1)"
    using init_term_ok[OF codes out ok] by (simp add: self1_def w1_def s1_def)
  have ds1: "display_text (display_pieces self d) s1"
    unfolding s1_def by (intro display_text_append display_text_code[OF ok] used_codenames)
  have w1: "codename_to_terminal_code w1 = Some d" "stdout w1 = Some (out @ s1)"
    by (simp_all add: w1_def codes)
  obtain s2 where ds2: "display_text (display_pieces self d) s2"
    and m: "print_menu self 0 True w1 = (Inr (), w1\<lparr>stdout := Some ((out @ s1) @ s2)\<rparr>)"
    using appends_outputD[OF appends_print_menu[OF ok] w1] by blast
  define w2 where "w2 = w1\<lparr>stdout := Some (out @ s1 @ s2)\<rparr>"
  have w2: "codename_to_terminal_code w2 = Some d" "stdout w2 = Some (out @ s1 @ s2)"
    by (simp_all add: w2_def w1)
  have m1: "print_menu self1 0 True w1 = (Inr (), w2)"
    using m by (simp add: self1_def renderer_terms w2_def)
  have ok1: "menu_codes_ok self1 d" using ok by (simp add: self1_def menu_codes_ok_terms)
  have old: "old_term self1 = Some (tty_attrs w)" by (simp add: self1_def)
  have td: "teardown_text self1 d = teardown_text self d" "fd self1 = fd self"
    by (simp_all add: self1_def teardown_text_def)
  have act: "\<And>inputs. active_session self inputs w = active_after self 0 inputs w2"
    using i m1 by (simp add: active_session_def codes self1_def active_after_terms)
  have sh: "\<And>inputs. TerminalMenu_show self inputs w =
          (case show_loop self 0 inputs w2 of
             None \<Rightarrow> None
           | Some (body, w3) \<Rightarrow>
               Some (case body of Inl KeyboardInterrupt \<Rightarrow> Inr None | _ \<Rightarrow> body,
                     w3\<lparr>tty_attrs := tty_attrs w,
                        termios_calls := termios_calls w3 @ [TcSetAttr (fd self) (tty_attrs w)],
                        stdout := Some (the (stdout w3) @ teardown_text self d)\<rparr>))"
  proof -
    fix inputs
    show "TerminalMenu_show self inputs w =
          (case show_loop self 0 inputs w2 of
             None \<Rightarrow> None
           | Some (body, w3) \<Rightarrow>
               Some (case body of Inl KeyboardInterrupt \<Rightarrow> Inr None | _ \<Rightarrow> body,
                     w3\<lparr>tty_attrs := tty_attrs w,
                        termios_calls := termios_calls w3 @ [TcSetAttr (fd self) (tty_attrs w)],
                        stdout := Some (the (stdout w3) @ teardown_text self d)\<rparr>))"
    proof (cases "show_loop self 0 inputs w2")
      case None
      then show ?thesis
        using i m1 by (simp add: TerminalMenu_show_def codes self1_def show_loop_terms)
    next
      case (Some res)
      obtain body w3 where res: "res = (body, w3)" by (cases res)
      from show_loop_frame[OF ok w2 Some[unfolded res]] obtain s3 where
        w3: "w3 = w2\<lparr>stdout := Some ((out @ s1 @ s2) @ s3)\<rparr>" by blast
      have c3: "codename_to_terminal_code w3 = Some d" "stdout w3 = Some ((out @ s1 @ s2) @ s3)"
        by (simp_all add: w3 w2)
      have t: "sequence_io [clear_menu self1, reset_term self1] w3 =
           (Inr (),
            w3\<lparr>tty_attrs := tty_attrs w,
               termios_calls := termios_calls w3 @ [TcSetAttr (fd self) (tty_attrs w)],
               stdout := Some (((out @ s1 @ s2) @ s3) @ teardown_text self d)\<rparr>)"
        using teardown_ok[OF c3 ok1 old] by (simp only: td)
      have l: "show_loop self1 0 inputs w2 = Some (body, w3)"
        using Some res by (simp add: self1_def show_loop_terms)
      show ?thesis
        using i m1 l t unfolding TerminalMenu_show_def
        by (simp add: codes Some res c3 Let_def del: sequence_io.simps)
    qed
  qed
  show ?thesis
  proof (intro exI[of _ "s1 @ s2"] conjI allI)
    show "display_text (display_pieces self d) (s1 @ s2)"
      by (intro display_text_append ds1 ds2)
  next
    fix inputs
    show "active_session self inputs w =
          active_after self 0 inputs
            (w\<lparr>tty_attrs := raw_mode (tty_attrs w),
               termios_calls := termios_calls w @
                 [TcGetAttr (fd self), TcGetAttr (fd self), TcSetAttr (fd self) (raw_mode (tty_attrs w))],
               stdout := Some (out @ s1 @ s2)\<rparr>)"
      using act[of inputs] by (simp add: w2_def w1_def)
  next
    fix inputs
    show "TerminalMenu_show self inputs w =
          (case show_loop self 0 inputs
                  (w\<lparr>tty_attrs := raw_mode (tty_attrs w),
                     termios_calls := termios_calls w @
                       [TcGetAttr (fd self), TcGetAttr (fd self), TcSetAttr (fd self) (raw_mode (tty_attrs w))],
                     stdout := Some (out @ s1 @ s2)\<rparr>) of
             None \<Rightarrow> None
           | Some (body, w3) \<Rightarrow>
               Some (case body of Inl KeyboardInterrupt \<Rightarrow> Inr None | _ \<Rightarrow> body,
                     w3\<lparr>tty_attrs := tty_attrs w,
                        termios_calls := termios_calls w3 @ [TcSetAttr (fd self) (tty_attrs w)],
                        stdout := Some (the (stdout w3) @ teardown_text self d)\<rparr>))"
      using sh[of inputs] by (simp add: w2_def w1_def)
  qed
qed



text \<open>
  The end of a session: the key that arrives when the session is active with index \<open>i\<close>
  decides the result, and the final state is the one in which the read was waiting with
  the attributes restored and the teardown text appended.
\<close>

lemma session_end:
  assumes codes: "codename_to_terminal_code w = Some d" and out: "stdout w = Some out"
    and ok: "menu_codes_ok self d"
    and act: "active_session self pre w = Some (i, w1)"
  shows "\<exists>w3 out3 wf.
           position_cursor self i w1 = (Inr (), w3) \<and> stdout w3 = Some out3
         \<and> (\<exists>s. display_text (display_pieces self d) s \<and> out3 = out @ s)
         \<and> wf = w\<lparr>termios_calls := termios_calls w @
                    [TcGetAttr (fd self), TcGetAttr (fd self),
                     TcSetAttr (fd self) (raw_mode (tty_attrs w)), TcSetAttr (fd self) (tty_attrs w)],
                  stdout := Some (out3 @ teardown_text self d)\<rparr>
         \<and> (\<forall>e.
               (read_next_key True e w = Inr ''enter'' \<longrightarrow>
                  TerminalMenu_show self (pre @ [e]) w = Some (Inr (Some i), wf))
             \<and> (read_next_key True e w = Inr ''escape'' \<longrightarrow>
                  TerminalMenu_show self (pre @ [e]) w = Some (Inr None, wf))
             \<and> (read_next_key True e w = Inl KeyboardInterrupt \<longrightarrow>
                  TerminalMenu_show self (pre @ [e]) w = Some (Inr None, wf))
             \<and> (\<forall>x. read_next_key True e w = Inl x \<and> x \<noteq> KeyboardInterrupt \<longrightarrow>
                  TerminalMenu_show self (pre @ [e]) w = Some (Inl x, wf)))"
proof -
  from show_unfold[OF codes out ok] obtain s0 where
    d0: "display_text (display_pieces self d) s0" and
    as: "\<forall>inputs. active_session self inputs w =
          active_after self 0 inputs
            (w\<lparr>tty_attrs := raw_mode (tty_attrs w),
               termios_calls := termios_calls w @
                 [TcGetAttr (fd self), TcGetAttr (fd self), TcSetAttr (fd self) (raw_mode (tty_attrs w))],
               stdout := Some (out @ s0)\<rparr>)"
    and sh: "\<forall>inputs. TerminalMenu_show self inputs w =
          (case show_loop self 0 inputs
                  (w\<lparr>tty_attrs := raw_mode (tty_attrs w),
                     termios_calls := termios_calls w @
                       [TcGetAttr (fd self), TcGetAttr (fd self), TcSetAttr (fd self) (raw_mode (tty_attrs w))],
                     stdout := Some (out @ s0)\<rparr>) of
             None \<Rightarrow> None
           | Some (body, w3) \<Rightarrow>
               Some (case body of Inl KeyboardInterrupt \<Rightarrow> Inr None | _ \<Rightarrow> body,
                     w3\<lparr>tty_attrs := tty_attrs w,
                        termios_calls := termios_calls w3 @ [TcSetAttr (fd self) (tty_attrs w)],
                        stdout := Some (the (stdout w3) @ teardown_text self d)\<rparr>))"
    by blast
  define w2 where "w2 = w\<lparr>tty_attrs := raw_mode (tty_attrs w),
                     termios_calls := termios_calls w @
                       [TcGetAttr (fd self), TcGetAttr (fd self), TcSetAttr (fd self) (raw_mode (tty_attrs w))],
                     stdout := Some (out @ s0)\<rparr>"
  have c2: "codename_to_terminal_code w2 = Some d" "stdout w2 = Some (out @ s0)"
    by (simp_all add: w2_def codes)
  have a: "active_after self 0 pre w2 = Some (i, w1)" using act as by (simp add: w2_def)
  obtain s1 where d1: "display_text (display_pieces self d) s1"
    and w1: "w1 = w2\<lparr>stdout := Some ((out @ s0) @ s1)\<rparr>"
    using active_after_frame[OF ok c2 a] by blast
  have c1: "codename_to_terminal_code w1 = Some d" "stdout w1 = Some ((out @ s0) @ s1)"
    by (simp_all add: w1 c2)
  obtain s3 where d3: "display_text (display_pieces self d) s3"
    and p0: "position_cursor self i w1 = (Inr (), w1\<lparr>stdout := Some (((out @ s0) @ s1) @ s3)\<rparr>)"
    using appends_outputD[OF appends_position_cursor[OF ok] c1] by blast
  define out3 where "out3 = ((out @ s0) @ s1) @ s3"
  define w3 where "w3 = w1\<lparr>stdout := Some out3\<rparr>"
  have p: "position_cursor self i w1 = (Inr (), w3)" using p0 by (simp add: w3_def out3_def)
  have o3: "stdout w3 = Some out3" by (simp add: w3_def)
  have rd: "\<And>e. read_next_key True e w3 = read_next_key True e w"
    by (rule read_next_key_cong) (simp add: w3_def w1 w2_def)
  define wf where "wf = w\<lparr>termios_calls := termios_calls w @
                    [TcGetAttr (fd self), TcGetAttr (fd self),
                     TcSetAttr (fd self) (raw_mode (tty_attrs w)), TcSetAttr (fd self) (tty_attrs w)],
                  stdout := Some (out3 @ teardown_text self d)\<rparr>"
  have fin: "w3\<lparr>tty_attrs := tty_attrs w,
                 termios_calls := termios_calls w3 @ [TcSetAttr (fd self) (tty_attrs w)],
                 stdout := Some (the (stdout w3) @ teardown_text self d)\<rparr> = wf"
    by (simp add: wf_def w3_def w1 w2_def)
  have step: "\<And>e. show_loop self i [e] w1 =
      (case read_next_key True e w of
         Inl x \<Rightarrow> Some (Inl x, w3)
       | Inr k \<Rightarrow>
           (case key_transition self i k of
              Break res \<Rightarrow> Some (Inr res, w3)
            | Continue i' \<Rightarrow>
                (case print_menu self i' False w3 of
                   (Inl x, w4) \<Rightarrow> Some (Inl x, w4)
                 | (Inr _, w4) \<Rightarrow> show_loop self i' [] w4)))"
    by (simp add: p rd del: show_loop.simps(1))
  have loop: "\<And>e. show_loop self 0 (pre @ [e]) w2 = show_loop self i [e] w1"
    by (rule show_loop_append[OF a])
  have res: "\<And>e body. show_loop self i [e] w1 = Some (body, w3) \<Longrightarrow>
      TerminalMenu_show self (pre @ [e]) w
        = Some (case body of Inl KeyboardInterrupt \<Rightarrow> Inr None | _ \<Rightarrow> body, wf)"
    using sh by (simp add: w2_def[symmetric] loop fin)
  show ?thesis
    apply (rule exI[of _ w3], rule exI[of _ out3], rule exI[of _ wf])
  proof (intro conjI allI impI)
    show "position_cursor self i w1 = (Inr (), w3)" by (rule p)
    show "stdout w3 = Some out3" by (rule o3)
    show "\<exists>s. display_text (display_pieces self d) s \<and> out3 = out @ s"
      by (rule exI[of _ "s0 @ s1 @ s3"]) (simp add: out3_def display_text_append d0 d1 d3)
    show "wf = w\<lparr>termios_calls := termios_calls w @
                    [TcGetAttr (fd self), TcGetAttr (fd self),
                     TcSetAttr (fd self) (raw_mode (tty_attrs w)), TcSetAttr (fd self) (tty_attrs w)],
                  stdout := Some (out3 @ teardown_text self d)\<rparr>" by (rule wf_def)
  next
    fix e assume "read_next_key True e w = Inr ''enter''"
    then have "show_loop self i [e] w1 = Some (Inr (Some i), w3)"
      by (simp add: step key_transition_def del: show_loop.simps)
    from res[OF this] show "TerminalMenu_show self (pre @ [e]) w = Some (Inr (Some i), wf)" by simp
  next
    fix e assume "read_next_key True e w = Inr ''escape''"
    then have "show_loop self i [e] w1 = Some (Inr None, w3)"
      by (simp add: step key_transition_def del: show_loop.simps)
    from res[OF this] show "TerminalMenu_show self (pre @ [e]) w = Some (Inr None, wf)" by simp
  next
    fix e assume "read_next_key True e w = Inl KeyboardInterrupt"
    then have "show_loop self i [e] w1 = Some (Inl KeyboardInterrupt, w3)"
      by (simp add: step del: show_loop.simps)
    from res[OF this] show "TerminalMenu_show self (pre @ [e]) w = Some (Inr None, wf)" by simp
  next
    fix e x assume x: "read_next_key True e w = Inl x \<and> x \<noteq> KeyboardInterrupt"
    then have "show_loop self i [e] w1 = Some (Inl x, w3)"
      by (simp add: step del: show_loop.simps)
    from res[OF this] x show "TerminalMenu_show self (pre @ [e]) w = Some (Inl x, wf)"
      by (cases x) simp_all
  qed
qed



lemma active_session_stdout:
  "active_session self pre w = Some (i, w1) \<Longrightarrow> \<exists>out. stdout w = Some out"
proof (rule ccontr)
  assume a: "active_session self pre w = Some (i, w1)" and "\<nexists>out. stdout w = Some out"
  then have n: "stdout w = None" by simp
  from a obtain u self1 w' where "init_term self w = (Inr u, self1, w')"
    by (auto simp: active_session_def split: if_splits prod.splits sum.splits)
  with init_term_needs_stdout[OF n, of self u] show False by simp
qed

lemma TerminalMenu_built:
  assumes fresh: "codename_to_terminal_code w0 = None"
    and built: "TerminalMenu tput entries ttl cursor cursor_style highlight_style cycle w0
                  = (Inr self, w)"
  obtains d where
    "codename_to_terminal_code w = Some d"
    "terminal_code_to_codename w = Some (invert_codes d)"
    "menu_codes_ok self d"
    "map_of (invert_codes d) [CHR 0x0A] = Some ''enter''"
    "map_of (invert_codes d) [CHR 0x1B] = Some ''escape''"
    "w = w0\<lparr>codename_to_terminal_code := Some d,
            terminal_code_to_codename := Some (invert_codes d)\<rparr>"
    "menu_entries self = entries" "cycle_cursor self = cycle" "stdin w0 = Some (fd self)"
proof -
  from built obtain fileno where f: "stdin w0 = Some fileno"
    by (auto simp: TerminalMenu_def split: option.splits)
  define self0 where "self0 = \<lparr>fd = fileno, menu_entries = entries, title = ttl,
      menu_cursor = (case cursor of Some c \<Rightarrow> c | None \<Rightarrow> []),
      menu_cursor_style = (case cursor_style of Some s \<Rightarrow> s | None \<Rightarrow> []),
      menu_highlight_style = (case highlight_style of Some s \<Rightarrow> s | None \<Rightarrow> []),
      cycle_cursor = cycle, old_term = None, new_term = None\<rparr>"
  from built f have v: "check_for_valid_styles self0 = Inr ()"
    and i: "init_terminal_codes tput w0 = (Inr (), w)" and s: "self = self0"
    by (auto simp: TerminalMenu_def self0_def Let_def split: sum.splits prod.splits)
  from v have inv: "invalid_styles_of self0 = []" by (simp add: check_for_valid_styles_ok)
  from fresh i obtain colors n d0 where
    d0: "terminal_codes_of tput n codenames [] = Inr d0" and
    w: "w = w0\<lparr>codename_to_terminal_code := Some (dict_update d0 name_to_control_character),
            terminal_code_to_codename := Some (invert_codes (dict_update d0 name_to_control_character))\<rparr>"
    by (rule init_terminal_codes_fresh)
  define d where "d = dict_update d0 name_to_control_character"
  have keys: "\<And>c. c \<in> set codenames \<Longrightarrow> map_of d c \<noteq> None"
    using built_codes_lookup(2)[OF d0] by (simp add: d_def)
  have styles: "set (menu_cursor_style self0) \<union> set (menu_highlight_style self0) \<subseteq> set codenames"
    using inv by (auto simp: invalid_styles_of_def filter_empty_conv codenames_keys)
  have ok: "menu_codes_ok self d"
    using keys styles by (auto simp: menu_codes_ok_def list_all_iff s)
  show thesis
  proof (rule that[of d])
    show "codename_to_terminal_code w = Some d" "terminal_code_to_codename w = Some (invert_codes d)"
      by (simp_all add: w d_def)
    show "menu_codes_ok self d" by (rule ok)
    show "map_of (invert_codes d) [CHR 0x0A] = Some ''enter''"
      "map_of (invert_codes d) [CHR 0x1B] = Some ''escape''"
      using invert_enter_escape[OF d0] by (simp_all add: d_def)
    show "w = w0\<lparr>codename_to_terminal_code := Some d,
            terminal_code_to_codename := Some (invert_codes d)\<rparr>"
      by (simp add: w d_def)
    show "menu_entries self = entries" "cycle_cursor self = cycle" "stdin w0 = Some (fd self)"
      by (simp_all add: s self0_def f)
  qed
qed

lemma xterm_menu_built:
  "TerminalMenu xterm_tput [''a'', ''b'', ''c''] None (Some ''> '') (Some [''fg_red'', ''bold''])
     (Some [''standout'']) True fresh_state = (Inr abc_menu, ready_state)"
  unfolding ready_state_def abc_menu_def by code_simp



section \<open>Capability resolver: properties\<close>

text \<open>
  Claim C8.  A capability that \<open>tput\<close> reports absent (return code 1) resolves to the
  empty sequence: the query returns it, and it is what the forward map of a successful
  initialisation holds.  Every \<open>fg_\<close>/\<open>bg_\<close> codename resolves to the empty
  sequence when the terminal reports fewer than 8 colours.  A query that is performed and
  ends with any other non-zero return code makes the initialisation raise
  \<open>CalledProcessError\<close> with the state unchanged, and \<open>main\<close> ends with that exception
  before any \<open>termios\<close> call (with \<open>AttributeError\<close> when \<open>sys.stdin\<close> is \<open>None\<close>, where
  the constructor stops before any query, the state unchanged too).
\<close>

theorem capability_query_failures:
  assumes fresh: "codename_to_terminal_code w = None"
  shows "(fst (tput (tput_args c)) = 1 \<longrightarrow> query_terminfo_database tput c = Inr [])
       \<and> (init_terminal_codes tput w = (Inr (), w') \<and> c \<in> set codenames
            \<and> fst (tput (tput_args c)) = 1 \<longrightarrow> cached_code w' c = Some [])
       \<and> (init_terminal_codes tput w = (Inr (), w') \<and> c \<in> set codenames \<and> is_color_codename c
            \<and> query_terminfo_database tput ''colors'' = Inr colors \<and> py_int colors = Some n \<and> n < 8
            \<longrightarrow> cached_code w' c = Some [])
       \<and> ((c = ''colors'' \<or>
            (\<exists>colors n. query_terminfo_database tput ''colors'' = Inr colors \<and> py_int colors = Some n
               \<and> c \<in> set codenames \<and> (\<not> is_color_codename c \<or> n \<ge> 8)))
           \<and> fst (tput (tput_args c)) \<noteq> 0 \<and> fst (tput (tput_args c)) \<noteq> 1 \<longrightarrow>
           (\<exists>rc. rc \<noteq> 0 \<and> rc \<noteq> 1
              \<and> init_terminal_codes tput w = (Inl (CalledProcessError rc), w)
              \<and> (parse_arguments parse_args = Inr args \<and> \<not> args_print_version args
                   \<and> set (case args_cursor_style args of Some s \<Rightarrow> s | None \<Rightarrow> [])
                       \<union> set (case args_highlight_style args of Some s \<Rightarrow> s | None \<Rightarrow> [])
                       \<subseteq> set codenames
                  \<longrightarrow> main tput prog parse_args inputs w
                        = Some (if stdin w = None then AttributeError else CalledProcessError rc, w))))"
proof (intro conjI impI)
  assume "fst (tput (tput_args c)) = 1"
  then show "query_terminfo_database tput c = Inr []" by (rule query_absent)
next
  assume a: "init_terminal_codes tput w = (Inr (), w') \<and> c \<in> set codenames
            \<and> fst (tput (tput_args c)) = 1"
  then have "query_terminfo_database tput c = Inr []" by (simp add: query_absent)
  then show "cached_code w' c = Some []"
    using init_terminal_codes_cached_code[OF fresh, of tput "()" w' c] a by simp
next
  assume a: "init_terminal_codes tput w = (Inr (), w') \<and> c \<in> set codenames \<and> is_color_codename c
            \<and> query_terminfo_database tput ''colors'' = Inr colors \<and> py_int colors = Some n \<and> n < 8"
  then show "cached_code w' c = Some []"
    using init_terminal_codes_cached_code[OF fresh, of tput "()" w' c] by simp
next
  assume a: "(c = ''colors'' \<or>
            (\<exists>colors n. query_terminfo_database tput ''colors'' = Inr colors \<and> py_int colors = Some n
               \<and> c \<in> set codenames \<and> (\<not> is_color_codename c \<or> n \<ge> 8)))
           \<and> fst (tput (tput_args c)) \<noteq> 0 \<and> fst (tput (tput_args c)) \<noteq> 1"
  then obtain rc where rc: "rc \<noteq> 0" "rc \<noteq> 1"
      "init_terminal_codes tput w = (Inl (CalledProcessError rc), w)"
    using init_terminal_codes_fatal[OF fresh, of c tput] by blast
  have "parse_arguments parse_args = Inr args \<and> \<not> args_print_version args
                   \<and> set (case args_cursor_style args of Some s \<Rightarrow> s | None \<Rightarrow> [])
                       \<union> set (case args_highlight_style args of Some s \<Rightarrow> s | None \<Rightarrow> [])
                       \<subseteq> set codenames
                  \<longrightarrow> main tput prog parse_args inputs w
                        = Some (if stdin w = None then AttributeError else CalledProcessError rc, w)"
    by (cases "stdin w")
       (auto simp: main_def TerminalMenu_valid_styles TerminalMenu_no_stdin rc(3))
  with rc show "\<exists>rc. rc \<noteq> 0 \<and> rc \<noteq> 1
              \<and> init_terminal_codes tput w = (Inl (CalledProcessError rc), w)
              \<and> (parse_arguments parse_args = Inr args \<and> \<not> args_print_version args
                   \<and> set (case args_cursor_style args of Some s \<Rightarrow> s | None \<Rightarrow> [])
                       \<union> set (case args_highlight_style args of Some s \<Rightarrow> s | None \<Rightarrow> [])
                       \<subseteq> set codenames
                  \<longrightarrow> main tput prog parse_args inputs w
                        = Some (if stdin w = None then AttributeError else CalledProcessError rc, w))"
    by blast
qed

theorem capability_query_failures_witness:
  "query_terminfo_database xterm_tput ''italics'' = Inr []
   \<and> cached_code ready_state ''italics'' = Some []
   \<and> cached_code (snd (init_terminal_codes mono_tput fresh_state)) ''fg_red'' = Some []
   \<and> main old_tput ''menu'' (Inr abc_namespace) [] fresh_state
       = Some (CalledProcessError 4, fresh_state)"
proof -
  have h1: "fst (xterm_tput (tput_args ''italics'')) = 1" by code_simp
  have h2: "init_terminal_codes xterm_tput fresh_state = (Inr (), ready_state)"
    unfolding ready_state_def by code_simp
  have h3: "''italics'' \<in> set codenames" by code_simp
  have h4: "init_terminal_codes mono_tput fresh_state
              = (Inr (), snd (init_terminal_codes mono_tput fresh_state))" by code_simp
  have h5: "''fg_red'' \<in> set codenames" "is_color_codename ''fg_red''"
    "query_terminfo_database mono_tput ''colors'' = Inr (''-1'' @ [CHR 0x0A])"
    "py_int (''-1'' @ [CHR 0x0A]) = Some (- 1)" by code_simp+
  have h6: "query_terminfo_database old_tput ''colors'' = Inr (''8'' @ [CHR 0x0A])"
    "py_int (''8'' @ [CHR 0x0A]) = Some 8" "fst (old_tput (tput_args ''italics'')) = 4" by code_simp+
  have h7: "parse_arguments (Inr abc_namespace) = Inr
      \<lparr>args_title = None, args_cursor = ''> '', args_cursor_style = Some [''fg_red'', ''bold''],
       args_highlight_style = Some [''standout''], args_cycle = True, args_print_version = False,
       args_entries = [''a'', ''b'', ''c'']\<rparr>" by code_simp
  have h8: "set [''fg_red'', ''bold''] \<union> set [''standout''] \<subseteq> set codenames" by code_simp
  have a: "query_terminfo_database xterm_tput ''italics'' = Inr []"
       "cached_code ready_state ''italics'' = Some []"
    using capability_query_failures[OF fresh_state_fresh, of xterm_tput "''italics''" ready_state] h1 h2 h3 by simp_all
  have b: "cached_code (snd (init_terminal_codes mono_tput fresh_state)) ''fg_red'' = Some []"
    using capability_query_failures[OF fresh_state_fresh, of mono_tput "''fg_red''" "snd (init_terminal_codes mono_tput fresh_state)"
        "''-1'' @ [CHR 0x0A]" "- 1"] h4 h5 by simp
  obtain rc where rc: "init_terminal_codes old_tput fresh_state = (Inl (CalledProcessError rc), fresh_state)"
     "main old_tput ''menu'' (Inr abc_namespace) [] fresh_state = Some (CalledProcessError rc, fresh_state)"
    using capability_query_failures[OF fresh_state_fresh, where tput = old_tput and c = "''italics''"
        and parse_args = "Inr abc_namespace" and prog = "''menu''" and inputs = "[]"
        and w' = fresh_state and colors = "[]" and n = 0
        and args = "\<lparr>args_title = None, args_cursor = ''> '',
          args_cursor_style = Some [''fg_red'', ''bold''],
          args_highlight_style = Some [''standout''], args_cycle = True,
          args_print_version = False, args_entries = [''a'', ''b'', ''c'']\<rparr>"]
      h3 h6 h7 h8 by (auto simp: fresh_state_def)
  have "init_terminal_codes old_tput fresh_state = (Inl (CalledProcessError 4), fresh_state)" by code_simp
  with rc have "rc = 4" by simp
  with a b rc show ?thesis by simp
qed

text \<open>
  Claim C10, as amended.  After a successful initialisation, looking up the terminal code
  of a codename \<open>c\<close> in the reverse map yields a codename with the same terminal code;
  it yields \<open>c\<close> itself when no other codename has that terminal code.
\<close>

theorem reverse_lookup_same_code:
  assumes fresh: "codename_to_terminal_code w = None"
    and ok: "init_terminal_codes tput w = (Inr (), w')"
    and c: "cached_code w' c = Some t"
  shows "(\<exists>c'. cached_codename w' t = Some c' \<and> cached_code w' c' = Some t)
       \<and> ((\<forall>c''. cached_code w' c'' = Some t \<longrightarrow> c'' = c) \<longrightarrow> cached_codename w' t = Some c)"
proof -
  from fresh ok obtain colors n d0 where
    d0: "terminal_codes_of tput n codenames [] = Inr d0" and
    w': "w' = w\<lparr>codename_to_terminal_code := Some (dict_update d0 name_to_control_character),
            terminal_code_to_codename := Some (invert_codes (dict_update d0 name_to_control_character))\<rparr>"
    by (rule init_terminal_codes_fresh)
  define d where "d = dict_update d0 name_to_control_character"
  have dist: "distinct (map fst d)"
    using built_codes_lookup(5)[OF d0] by (simp add: d_def)
  have fw: "\<And>x. cached_code w' x = map_of d x"
    by (simp add: cached_code_def w' d_def)
  have bw: "\<And>x. cached_codename w' x = map_of (invert_codes d) x"
    by (simp add: cached_codename_def w' d_def)
  from c have "map_of d c = Some t" by (simp add: fw)
  then obtain c' where c': "map_of (invert_codes d) t = Some c'"
    using invert_codes_total by blast
  have inv: "map_of d c' = Some t"
    using dist c' by (rule invert_codes_sound)
  show ?thesis
    using c' inv by (auto simp: fw bw)
qed

theorem reverse_lookup_same_code_witness:
  "cached_code ready_state ''up'' = Some ([CHR 0x1B] @ ''OA'')
   \<and> cached_codename ready_state ([CHR 0x1B] @ ''OA'') = Some ''up''"
proof -
  have h: "init_terminal_codes xterm_tput fresh_state = (Inr (), ready_state)"
    unfolding ready_state_def by code_simp
  have c: "cached_code ready_state ''up'' = Some ([CHR 0x1B] @ ''OA'')"
    unfolding ready_state_def by code_simp
  have all: "list_all (\<lambda>(c'', t'). t' = [CHR 0x1B] @ ''OA'' \<longrightarrow> c'' = ''up'')
               (the (codename_to_terminal_code ready_state))"
    unfolding ready_state_def by code_simp
  have some: "codename_to_terminal_code ready_state
                = Some (the (codename_to_terminal_code ready_state))"
    unfolding ready_state_def by code_simp
  have u: "\<forall>c''. cached_code ready_state c'' = Some ([CHR 0x1B] @ ''OA'') \<longrightarrow> c'' = ''up''"
  proof (intro allI impI)
    fix c'' assume "cached_code ready_state c'' = Some ([CHR 0x1B] @ ''OA'')"
    then have "map_of (the (codename_to_terminal_code ready_state)) c'' = Some ([CHR 0x1B] @ ''OA'')"
      using some by (simp add: cached_code_def split: option.splits)
    then have "(c'', [CHR 0x1B] @ ''OA'') \<in> set (the (codename_to_terminal_code ready_state))"
      by (rule map_of_SomeD)
    with all show "c'' = ''up''" by (auto simp: list_all_iff)
  qed
  from reverse_lookup_same_code[OF fresh_state_fresh h c] u c show ?thesis by blast
qed

text \<open>
  The reverse map is not an inverse: on the xterm-like terminal \<open>cursor_down\<close> and
  \<open>enter\<close> are both the line feed, and the reverse map sends it to \<open>enter\<close>.
\<close>

theorem reverse_lookup_not_inverse:
  "cached_code ready_state ''cursor_down'' = Some [CHR 0x0A]
   \<and> cached_codename ready_state [CHR 0x0A] = Some ''enter''"
  unfolding ready_state_def by code_simp

section \<open>Style validation\<close>

text \<open>
  Claim C7, as amended.  When \<open>sys.stdin\<close> is not \<open>None\<close> and a requested cursor or
  highlight style is not a known codename, the constructor raises \<open>InvalidStyleError\<close>
  and leaves the state as it was (no \<open>termios\<close> call, no attribute read or changed,
  whatever \<open>tput\<close> would answer), and \<open>main\<close> prints the message to the error stream and
  exits with status 0.
\<close>

theorem invalid_style_rejected:
  assumes "style \<in> set (case cursor_style of Some s \<Rightarrow> s | None \<Rightarrow> [])
                 \<union> set (case highlight_style of Some s \<Rightarrow> s | None \<Rightarrow> [])"
    and "style \<notin> set codenames"
    and "stdin w \<noteq> None"
  shows "\<exists>msg.
           TerminalMenu tput entries ttl cursor cursor_style highlight_style cycle w
             = (Inl (InvalidStyleError msg), w)
         \<and> (parse_arguments parse_args = Inr args \<and> \<not> args_print_version args
              \<and> args_cursor_style args = cursor_style \<and> args_highlight_style args = highlight_style
              \<and> args_entries args = entries \<and> args_title args = ttl \<and> args_cursor args = c
              \<and> cursor = Some c \<and> args_cycle args = cycle \<longrightarrow>
            main tput prog parse_args inputs w
              = Some (SystemExit 0, w\<lparr>stderr := stderr w @ msg @ [CHR 0x0A]\<rparr>)
            \<and> exit_status (SystemExit 0) = Some 0)"
proof -
  from assms(3) obtain fileno where f: "stdin w = Some fileno" by auto
  define self where "self = \<lparr>fd = fileno, menu_entries = entries, title = ttl,
      menu_cursor = (case cursor of Some c \<Rightarrow> c | None \<Rightarrow> []),
      menu_cursor_style = (case cursor_style of Some s \<Rightarrow> s | None \<Rightarrow> []),
      menu_highlight_style = (case highlight_style of Some s \<Rightarrow> s | None \<Rightarrow> []),
      cycle_cursor = cycle, old_term = None, new_term = None\<rparr>"
  from assms(1,2) have "style \<in> set (invalid_styles_of self)"
    by (auto simp: invalid_styles_of_def self_def codenames_keys)
  then have "invalid_styles_of self \<noteq> []" by auto
  then obtain msg where msg: "check_for_valid_styles self = Inl (InvalidStyleError msg)"
    using check_for_valid_styles_error by blast
  have t: "TerminalMenu tput entries ttl cursor cursor_style highlight_style cycle w
             = (Inl (InvalidStyleError msg), w)"
    using msg by (simp add: TerminalMenu_def f self_def Let_def)
  show ?thesis
    apply (rule exI[of _ msg])
    using t by (auto simp: main_def print_stderr_def)
qed

theorem invalid_style_rejected_witness:
  "main xterm_tput ''menu'' (Inr (abc_namespace\<lparr>ns_cursor_style := ''fg_red,blink''\<rparr>)) [] fresh_state
     = Some (SystemExit 0,
             fresh_state\<lparr>stderr := ''The style '' @ [CHR 0x22] @ ''blink'' @ [CHR 0x22]
                                     @ '' does not exist.'' @ [CHR 0x0A]\<rparr>)"
proof -
  define a where "a = \<lparr>args_title = None, args_cursor = ''> '',
       args_cursor_style = Some [''fg_red'', ''blink''],
       args_highlight_style = Some [''standout''], args_cycle = True, args_print_version = False,
       args_entries = [''a'', ''b'', ''c'']\<rparr>"
  have p: "parse_arguments (Inr (abc_namespace\<lparr>ns_cursor_style := ''fg_red,blink''\<rparr>)) = Inr a"
    unfolding a_def by code_simp
  have s: "''blink'' \<in> set (case Some [''fg_red'', ''blink''] of Some s \<Rightarrow> s | None \<Rightarrow> [])
            \<union> set (case Some [''standout''] of Some s \<Rightarrow> s | None \<Rightarrow> [])" by simp
  have n: "''blink'' \<notin> set codenames" by code_simp
  have i: "stdin fresh_state \<noteq> None" by (simp add: fresh_state_def)
  from invalid_style_rejected[OF s n i, where tput = xterm_tput and entries = "[''a'', ''b'', ''c'']"
      and ttl = None and cursor = "Some ''> ''" and cycle = True
      and parse_args = "Inr (abc_namespace\<lparr>ns_cursor_style := ''fg_red,blink''\<rparr>)"
      and args = a and c = "''> ''" and prog = "''menu''" and inputs = "[]"]
  obtain msg where
    t: "TerminalMenu xterm_tput [''a'', ''b'', ''c''] None (Some ''> '') (Some [''fg_red'', ''blink''])
          (Some [''standout'']) True fresh_state = (Inl (InvalidStyleError msg), fresh_state)"
    and m: "main xterm_tput ''menu'' (Inr (abc_namespace\<lparr>ns_cursor_style := ''fg_red,blink''\<rparr>)) [] fresh_state
              = Some (SystemExit 0, fresh_state\<lparr>stderr := stderr fresh_state @ msg @ [CHR 0x0A]\<rparr>)"
    using p by (auto simp: a_def)
  have "fst (TerminalMenu xterm_tput [''a'', ''b'', ''c''] None (Some ''> '') (Some [''fg_red'', ''blink''])
          (Some [''standout'']) True fresh_state)
        = Inl (InvalidStyleError (''The style '' @ [CHR 0x22] @ ''blink'' @ [CHR 0x22] @ '' does not exist.''))"
    by code_simp
  with t have "msg = ''The style '' @ [CHR 0x22] @ ''blink'' @ [CHR 0x22] @ '' does not exist.''"
    by simp
  with m show ?thesis by (simp add: fresh_state_def)
qed

text \<open>
  With standard input closed \<open>sys.stdin\<close> is \<open>None\<close>: the constructor's first statement
  raises \<open>AttributeError\<close> before the styles are checked, \<open>main\<close> does not catch it and
  the exit status is 1.
\<close>

theorem invalid_style_without_stdin:
  "TerminalMenu xterm_tput [''a'', ''b'', ''c''] None (Some ''> '') (Some [''fg_red'', ''blink''])
     (Some [''standout'']) True (fresh_state\<lparr>stdin := None\<rparr>)
     = (Inl AttributeError, fresh_state\<lparr>stdin := None\<rparr>)
   \<and> main xterm_tput ''menu'' (Inr (abc_namespace\<lparr>ns_cursor_style := ''fg_red,blink''\<rparr>)) []
       (fresh_state\<lparr>stdin := None\<rparr>)
     = Some (AttributeError, fresh_state\<lparr>stdin := None\<rparr>)
   \<and> exit_status AttributeError = Some 1"
  by code_simp

section \<open>Key decoder: properties\<close>

text \<open>
  Claim C9, as amended.  For every chunk of ASCII bytes (each below 128),
  \<open>_read_next_key\<close> looks the whole chunk up in the reverse map; without a match it
  returns the chunk itself, in lower case when \<open>ignore_case\<close> is set.  It raises nothing.
\<close>

theorem read_next_key_ascii:
  assumes "terminal_code_to_codename w = Some d"
    and "list_all (\<lambda>b. (of_char b :: nat) < 128) bytes"
  shows "read_next_key ignore_case (Chunk bytes) w =
           Inr (case map_of d bytes of
                  Some codename \<Rightarrow> codename
                | None \<Rightarrow> if ignore_case then str_lower bytes else bytes)"
proof -
  from assms(2) have "\<not> list_ex (\<lambda>b. 128 \<le> (of_char b :: nat)) bytes"
    by (auto simp: list_all_iff list_ex_iff)
  then show ?thesis
    by (simp add: read_next_key_def assms(1) split: option.splits)
qed

theorem read_next_key_ascii_witness:
  "read_next_key True (Chunk ([CHR 0x1B] @ ''OA'')) ready_state = Inr ''up''
   \<and> read_next_key True (Chunk ''K'') ready_state = Inr ''k''
   \<and> read_next_key False (Chunk ''K'') ready_state = Inr ''K''"
proof -
  obtain d where d: "terminal_code_to_codename ready_state = Some d"
     and d1: "map_of d ([CHR 0x1B] @ ''OA'') = Some ''up''" and d2: "map_of d ''K'' = None"
  proof
    show "terminal_code_to_codename ready_state = Some (the (terminal_code_to_codename ready_state))"
      unfolding ready_state_def by code_simp
    show "map_of (the (terminal_code_to_codename ready_state)) ([CHR 0x1B] @ ''OA'') = Some ''up''"
      unfolding ready_state_def by code_simp
    show "map_of (the (terminal_code_to_codename ready_state)) ''K'' = None"
      unfolding ready_state_def by code_simp
  qed
  have a1: "list_all (\<lambda>b. (of_char b :: nat) < 128) ([CHR 0x1B] @ ''OA'')" by simp
  have a2: "list_all (\<lambda>b. (of_char b :: nat) < 128) ''K''" by simp
  have l: "str_lower ''K'' = ''k''" by code_simp
  show ?thesis
    using read_next_key_ascii[OF d a1, of True] read_next_key_ascii[OF d a2, of True] read_next_key_ascii[OF d a2, of False] d1 d2 l
    by simp
qed

text \<open>
  A chunk with a byte above 127 (here the UTF-8 encoding of a-umlaut) makes
  \<open>decode("ascii")\<close> raise.
\<close>

theorem read_next_key_non_ascii: "read_next_key True (Chunk [CHR 0xC3, CHR 0xA4]) ready_state = Inl UnicodeDecodeError"
  by (simp add: read_next_key_def)

section \<open>Selection state machine\<close>

text \<open>
  Claim C2.  With \<open>N \<ge> 1\<close> entries and the index \<open>i\<close> in \<open>[0, N)\<close>: Up (the key
  \<open>up\<close> or \<open>k\<close>) gives \<open>i - 1\<close>, except at 0 where it gives \<open>N - 1\<close> when cycling and
  0 otherwise; Down (\<open>down\<close> or \<open>j\<close>) gives \<open>i + 1\<close>, except at \<open>N - 1\<close> where it gives
  0 when cycling and \<open>N - 1\<close> otherwise.
\<close>

theorem up_down_transition: 
  assumes "menu_entries self \<noteq> []" and "0 \<le> i" and "i < int (length (menu_entries self))"
  shows "(k = ''up'' \<or> k = ''k'' \<longrightarrow>
            key_transition self i k =
              Continue (if i = 0 then (if cycle_cursor self then int (length (menu_entries self)) - 1 else 0)
                        else i - 1))
       \<and> (k = ''down'' \<or> k = ''j'' \<longrightarrow>
            key_transition self i k =
              Continue (if i = int (length (menu_entries self)) - 1
                        then (if cycle_cursor self then 0 else int (length (menu_entries self)) - 1)
                        else i + 1))"
  using assms by (auto simp: key_transition_def Let_def)

theorem up_down_transition_witness:
  "key_transition abc_menu 0 ''up'' = Continue 2 \<and> key_transition abc_menu 2 ''j'' = Continue 0
   \<and> key_transition abc_menu 1 ''k'' = Continue 0 \<and> key_transition abc_menu 1 ''down'' = Continue 2"
proof -
  have a: "menu_entries abc_menu \<noteq> []" by (simp add: abc_menu_def)
  have l: "int (length (menu_entries abc_menu)) = 3" "cycle_cursor abc_menu" by (simp_all add: abc_menu_def)
  show ?thesis
    using up_down_transition[OF a, of 0 "''up''"] up_down_transition[OF a, of 2 "''j''"] up_down_transition[OF a, of 1 "''k''"] up_down_transition[OF a, of 1 "''down''"]
    by (simp add: l)
qed

text \<open>
  Claim C5.  A decoded key that is none of Up, Down, Enter and Escape leaves the loop
  running with the same selection index.
\<close>

theorem other_key_ignored:
  assumes "k \<noteq> ''up''" "k \<noteq> ''k''" "k \<noteq> ''down''" "k \<noteq> ''j''" "k \<noteq> ''enter''" "k \<noteq> ''escape''"
  shows "key_transition self i k = Continue i"
  using assms by (simp add: key_transition_def)

theorem other_key_ignored_witness: "key_transition abc_menu 1 ''x'' = Continue 1"
  using other_key_ignored[of "''x''" abc_menu 1] by simp

text \<open>
  Claim C3.  With at least one entry, whatever the inputs were, whenever the session
  started by \<open>show\<close> (at index 0) is still active after them, its selection index is
  within \<open>[0, N)\<close>.
\<close>

theorem selection_index_in_range:
  assumes "menu_entries self \<noteq> []"
    and "active_session self inputs w = Some (i, w')"
  shows "0 \<le> i \<and> i < int (length (menu_entries self))"
proof -
  from assms(2) obtain u self1 w1 u2 w2 where
    i: "init_term self w = (Inr u, self1, w1)" and
    a: "active_after self1 0 inputs w2 = Some (i, w')"
    by (auto simp: active_session_def split: if_splits prod.splits sum.splits)
  from init_term_self[OF i] have e: "menu_entries self1 = menu_entries self" by simp
  with assms(1) have "menu_entries self1 \<noteq> []" "(0::int) < int (length (menu_entries self1))"
    by simp_all
  from active_after_index[OF this(1) _ this(2) a] show ?thesis by (simp add: e)
qed

theorem selection_index_in_range_witness:
  "(case active_session abc_menu [Chunk ([CHR 0x1B] @ ''OA''), Chunk ''j'', Chunk ''j'', Chunk ''x'']
           ready_state of
      Some (i, w') \<Rightarrow> i = 1 \<and> 0 \<le> i \<and> i < 3
    | None \<Rightarrow> False)"
proof -
  have v: "map_option fst (active_session abc_menu
             [Chunk ([CHR 0x1B] @ ''OA''), Chunk ''j'', Chunk ''j'', Chunk ''x''] ready_state) = Some 1"
    by code_simp
  then obtain w' where a: "active_session abc_menu
             [Chunk ([CHR 0x1B] @ ''OA''), Chunk ''j'', Chunk ''j'', Chunk ''x''] ready_state = Some (1, w')"
    by auto
  have n: "menu_entries abc_menu \<noteq> []" by (simp add: abc_menu_def)
  from selection_index_in_range[OF n a] a show ?thesis by (simp add: abc_menu_def)
qed

text \<open>
  Claim C6.  For a menu built by the constructor: when the session is active with index
  \<open>i\<close> after a sequence of inputs and the next key decodes to Enter, \<open>show\<close> returns
  \<open>i\<close>.
\<close>

theorem enter_selects_current_index:
  assumes fresh: "codename_to_terminal_code w0 = None"
    and built: "TerminalMenu tput entries ttl cursor cursor_style highlight_style cycle w0
                  = (Inr self, w)"
    and act: "active_session self pre w = Some (i, w1)"
    and enter: "read_next_key True e w = Inr ''enter''"
  shows "\<exists>wf. TerminalMenu_show self (pre @ [e]) w = Some (Inr (Some i), wf)"
proof -
  from fresh built obtain d where
    codes: "codename_to_terminal_code w = Some d" and ok: "menu_codes_ok self d"
    by (rule TerminalMenu_built)
  from act obtain out where out: "stdout w = Some out"
    using active_session_stdout by blast
  from session_end[OF codes out ok act] obtain wf where
    "\<forall>e. read_next_key True e w = Inr ''enter'' \<longrightarrow>
           TerminalMenu_show self (pre @ [e]) w = Some (Inr (Some i), wf)"
    by blast
  with enter show ?thesis by blast
qed

theorem enter_selects_current_index_witness:
  "\<exists>wf. TerminalMenu_show abc_menu
           ([Chunk ([CHR 0x1B] @ ''OA''), Chunk ([CHR 0x1B] @ ''OA'')] @ [Chunk [CHR 0x0A]]) ready_state
         = Some (Inr (Some 1), wf)"
proof -
  have v: "map_option fst (active_session abc_menu
             [Chunk ([CHR 0x1B] @ ''OA''), Chunk ([CHR 0x1B] @ ''OA'')] ready_state) = Some 1"
    by code_simp
  then obtain w1 where a: "active_session abc_menu
             [Chunk ([CHR 0x1B] @ ''OA''), Chunk ([CHR 0x1B] @ ''OA'')] ready_state = Some (1, w1)"
    by auto
  have e: "read_next_key True (Chunk [CHR 0x0A]) ready_state = Inr ''enter''" by code_simp
  from enter_selects_current_index[OF fresh_state_fresh xterm_menu_built a e] show ?thesis .
qed

section \<open>Terminal mode controller: properties\<close>




section \<open>Exit codes\<close>




end
